theory Spec2Isabelle
  imports Complex_Main "HOL-Library.Sublist"
begin

section \<open>Exceptions\<close>

text \<open>
  The Python exceptions that the modelled functions of \<^verbatim>\<open>ufps/utils.py\<close> and
  \<^verbatim>\<open>ufps/core.py\<close> can raise. A raise is the left injection of the result type.
\<close>

datatype exn =
    ZeroDivisionError
  | RuntimeError string
  | NameError string
  | ValueError
  | TypeError
  | KeyError string
  | AttributeError
  | FileExistsError
  | FileNotFoundError
  | OverflowError

section \<open>Frame-rate options: \<^verbatim>\<open>get_fps_options\<close> of \<^verbatim>\<open>ufps/utils.py\<close>\<close>

text \<open>
  Python floats are idealised as real numbers: every operation of the function
  (a division, a product with 2, 4 or 8, a difference, comparisons) is taken exactly,
  and the non-finite floats are left out. The float division raises
  \<^verbatim>\<open>ZeroDivisionError\<close> on a zero divisor, which the model keeps as a result.
\<close>

record fps_option =
  target :: real
  actual :: real
  scale :: int
  exact :: bool

definition standard_fps :: "real list" where
  "standard_fps = [24, 25, 30, 48, 50, 60, 90, 96, 100, 120, 144, 180, 240]"

definition py_truediv :: "real \<Rightarrow> real \<Rightarrow> exn + real" where
  "py_truediv a b = (if b = 0 then Inl ZeroDivisionError else Inr (a / b))"

text \<open>The \<^verbatim>\<open># Add option\<close> block of the loop body (lines 147 to 160).\<close>

definition add_option :: "real \<Rightarrow> real \<Rightarrow> int \<Rightarrow> fps_option list \<Rightarrow> fps_option list" where
  "add_option tgt actual_fps scl options =
     (if \<bar>actual_fps - tgt\<bar> < 1 then
        options @ [\<lparr>target = tgt, actual = actual_fps, scale = scl, exact = True\<rparr>]
      else if actual_fps \<le> 240 then
        options @ [\<lparr>target = actual_fps, actual = actual_fps, scale = scl, exact = False\<rparr>]
      else options)"

text \<open>The loop over \<^verbatim>\<open>standard_fps\<close> (lines 129 to 160); \<^verbatim>\<open>continue\<close> goes on
  with the remaining targets and the options unchanged.\<close>

fun options_loop :: "real \<Rightarrow> real list \<Rightarrow> fps_option list \<Rightarrow> exn + fps_option list" where
  "options_loop current_fps [] options = Inr options"
| "options_loop current_fps (tgt # rest) options =
     (if tgt > current_fps then
        (case py_truediv tgt current_fps of
           Inl e \<Rightarrow> Inl e
         | Inr scale_needed \<Rightarrow>
             (if scale_needed \<le> 2 then
                options_loop current_fps rest (add_option tgt (current_fps * 2) 2 options)
              else if scale_needed \<le> 4 then
                options_loop current_fps rest (add_option tgt (current_fps * 4) 4 options)
              else if scale_needed \<le> 8 then
                options_loop current_fps rest (add_option tgt (current_fps * 8) 8 options)
              else options_loop current_fps rest options))
      else options_loop current_fps rest options)"

text \<open>The \<^verbatim>\<open># Remove duplicates\<close> loop (lines 163 to 169).\<close>

fun unique_loop :: "fps_option list \<Rightarrow> (real \<times> int) set \<Rightarrow> fps_option list \<Rightarrow> fps_option list" where
  "unique_loop [] seen unique_options = unique_options"
| "unique_loop (opt # rest) seen unique_options =
     (if (actual opt, scale opt) \<notin> seen then
        unique_loop rest (insert (actual opt, scale opt) seen) (unique_options @ [opt])
      else unique_loop rest seen unique_options)"

text \<open>\<^verbatim>\<open>sorted(unique_options, key=...)\<close> is a stable sort, as \<^const>\<open>sort_key\<close> is.\<close>

definition get_fps_options :: "real \<Rightarrow> exn + fps_option list" where
  "get_fps_options current_fps =
     (case options_loop current_fps standard_fps [] of
        Inl e \<Rightarrow> Inl e
      | Inr options \<Rightarrow> Inr (sort_key actual (unique_loop options {} [])))"


text \<open>What the loop establishes for every option it appends, for the current rate \<open>c\<close>.\<close>

definition option_ok :: "real \<Rightarrow> fps_option \<Rightarrow> bool" where
  "option_ok current_fps opt =
     (actual opt = current_fps * of_int (scale opt) \<and>
      (scale opt = 2 \<or> scale opt = 4 \<or> scale opt = 8) \<and>
      (if exact opt then \<bar>actual opt - target opt\<bar> < 1 \<and> target opt \<le> 240
       else actual opt \<le> 240 \<and> target opt = actual opt))"

section \<open>Video metadata: \<^verbatim>\<open>get_video_info\<close> of \<^verbatim>\<open>ufps/utils.py\<close>\<close>

text \<open>
  A Python float: a finite value (\<open>Fin 0\<close> stands for both zeros), an infinity or a NaN.
  \<open>float_positive x\<close> is the comparison \<^verbatim>\<open>x > 0\<close>.
\<close>

datatype pyfloat = Fin real | PosInf | NegInf | NaN

definition float_positive :: "pyfloat \<Rightarrow> bool" where
  "float_positive x = (case x of Fin r \<Rightarrow> 0 < r | PosInf \<Rightarrow> True | NegInf \<Rightarrow> False | NaN \<Rightarrow> False)"

text \<open>
  The value that \<^verbatim>\<open>json.loads\<close> returns: a dictionary is an association list,
  read from the front. Both kinds of JSON number are \<open>JNum\<close>, an integer being finite.
\<close>

datatype json =
    JNull
  | JBool bool
  | JNum pyfloat
  | JStr string
  | JArr "json list"
  | JObj "(string \<times> json) list"

text \<open>
  The built-in parsers and the arithmetic of floats are not code of the repository; they
  are parameters of the model: \<^verbatim>\<open>float(s)\<close> and \<^verbatim>\<open>int(s)\<close> on a string and
  \<^verbatim>\<open>json.loads\<close>, each \<open>None\<close> where Python raises \<^verbatim>\<open>ValueError\<close>, and the quotient and
  the product of two floats as the machine rounds them. Nothing is assumed of them: a
  quotient of positive floats may be zero, infinite or a NaN.
\<close>

record builtins =
  float_of_str :: "string \<Rightarrow> pyfloat option"
  int_of_str :: "string \<Rightarrow> int option"
  json_loads :: "string \<Rightarrow> json option"
  float_div :: "pyfloat \<Rightarrow> pyfloat \<Rightarrow> pyfloat"
  float_mul :: "pyfloat \<Rightarrow> pyfloat \<Rightarrow> pyfloat"

record completed =
  returncode :: int
  stdout :: string
  stderr :: string

record video_info =
  fps :: pyfloat
  width :: json
  height :: json
  codec :: json
  duration :: pyfloat
  file_size :: pyfloat
  bitrate :: int
  has_audio :: bool
  audio_codec :: json
  frame_count :: int

text \<open>
  \<^verbatim>\<open>float(x)\<close> and \<^verbatim>\<open>int(x)\<close>; \<^verbatim>\<open>int\<close> truncates a finite float towards zero and
  raises on a NaN (\<^verbatim>\<open>ValueError\<close>) and on an infinity (\<^verbatim>\<open>OverflowError\<close>).
\<close>

definition py_float :: "builtins \<Rightarrow> json \<Rightarrow> exn + pyfloat" where
  "py_float b x =
     (case x of
        JStr s \<Rightarrow> (case float_of_str b s of None \<Rightarrow> Inl ValueError | Some r \<Rightarrow> Inr r)
      | JNum r \<Rightarrow> Inr r
      | JBool t \<Rightarrow> Inr (Fin (if t then 1 else 0))
      | _ \<Rightarrow> Inl TypeError)"

definition py_int :: "builtins \<Rightarrow> json \<Rightarrow> exn + int" where
  "py_int b x =
     (case x of
        JStr s \<Rightarrow> (case int_of_str b s of None \<Rightarrow> Inl ValueError | Some i \<Rightarrow> Inr i)
      | JNum x \<Rightarrow>
          (case x of
             Fin r \<Rightarrow> Inr (if 0 \<le> r then \<lfloor>r\<rfloor> else \<lceil>r\<rceil>)
           | NaN \<Rightarrow> Inl ValueError
           | _ \<Rightarrow> Inl OverflowError)
      | JBool t \<Rightarrow> Inr (if t then 1 else 0)
      | _ \<Rightarrow> Inl TypeError)"

text \<open>\<^verbatim>\<open>d.get(key, default)\<close>, \<^verbatim>\<open>d[key]\<close> and iteration, on a value of any type.\<close>

definition py_get :: "json \<Rightarrow> string \<Rightarrow> json \<Rightarrow> exn + json" where
  "py_get d key dflt =
     (case d of
        JObj kvs \<Rightarrow> (case map_of kvs key of None \<Rightarrow> Inr dflt | Some v \<Rightarrow> Inr v)
      | _ \<Rightarrow> Inl AttributeError)"

definition py_getitem :: "json \<Rightarrow> string \<Rightarrow> exn + json" where
  "py_getitem d key =
     (case d of
        JObj kvs \<Rightarrow> (case map_of kvs key of None \<Rightarrow> Inl (KeyError key) | Some v \<Rightarrow> Inr v)
      | _ \<Rightarrow> Inl TypeError)"

definition py_iter :: "json \<Rightarrow> exn + json list" where
  "py_iter x =
     (case x of
        JArr xs \<Rightarrow> Inr xs
      | JStr s \<Rightarrow> Inr (map (\<lambda>c. JStr [c]) s)
      | JObj kvs \<Rightarrow> Inr (map (\<lambda>kv. JStr (fst kv)) kvs)
      | _ \<Rightarrow> Inl TypeError)"

text \<open>\<^verbatim>\<open>s.split(sep)\<close> for a separator of one character.\<close>

fun split_on :: "char \<Rightarrow> string \<Rightarrow> string list" where
  "split_on sep [] = [[]]"
| "split_on sep (x # xs) =
     (if x = sep then [] # split_on sep xs
      else (case split_on sep xs of
              [] \<Rightarrow> [[x]]
            | p # ps \<Rightarrow> (x # p) # ps))"

text \<open>
  The loop that finds the streams (lines 62 to 68). A stream stored in \<^verbatim>\<open>video_stream\<close>
  is a dictionary with the key \<^verbatim>\<open>codec_type\<close>, so it is truthy: \<^verbatim>\<open>not video_stream\<close>
  holds exactly while the variable is \<^verbatim>\<open>None\<close>.
\<close>

fun find_streams :: "json list \<Rightarrow> json option \<Rightarrow> json option
    \<Rightarrow> exn + (json option \<times> json option)" where
  "find_streams [] video_stream audio_stream = Inr (video_stream, audio_stream)"
| "find_streams (stream # rest) video_stream audio_stream =
     (case py_getitem stream ''codec_type'' of
        Inl e \<Rightarrow> Inl e
      | Inr ct \<Rightarrow>
          (if ct = JStr ''video'' \<and> video_stream = None then
             find_streams rest (Some stream) audio_stream
           else if ct = JStr ''audio'' \<and> audio_stream = None then
             find_streams rest video_stream (Some stream)
           else find_streams rest video_stream audio_stream))"

text \<open>
  \<^verbatim>\<open># Calculate FPS\<close> (lines 74 to 79), from the value of \<^verbatim>\<open>fps_str\<close>. The test
  \<^verbatim>\<open>den != 0\<close> fails for the two zeros only; the quotient is the float quotient.
\<close>

definition calculate_fps :: "builtins \<Rightarrow> json \<Rightarrow> exn + pyfloat" where
  "calculate_fps b fps_str =
     (case fps_str of
        JStr s \<Rightarrow>
          (if CHR ''/'' \<in> set s then
             (case map (float_of_str b) (split_on CHR ''/'' s) of
                [Some num, Some den] \<Rightarrow>
                  Inr (if den \<noteq> Fin 0 then float_div b num den else Fin 30)
              | _ \<Rightarrow> Inl ValueError)
           else py_float b (JStr s))
      | JArr xs \<Rightarrow> (if JStr ''/'' \<in> set xs then Inl AttributeError else Inl TypeError)
      | JObj kvs \<Rightarrow> (if ''/'' \<in> fst ` set kvs then Inl AttributeError else Inl TypeError)
      | _ \<Rightarrow> Inl TypeError)"

definition bind_exn :: "exn + 'a \<Rightarrow> ('a \<Rightarrow> exn + 'b) \<Rightarrow> exn + 'b" where
  "bind_exn m f = (case m of Inl e \<Rightarrow> Inl e | Inr x \<Rightarrow> f x)"

text \<open>
  Lines 81 to 98: the duration, the file size and the returned dictionary. \<open>st_size\<close> is
  what \<^verbatim>\<open>Path(video_path).stat().st_size\<close> gives, \<open>None\<close> when \<^verbatim>\<open>stat\<close> raises.
\<close>

definition build_info :: "builtins \<Rightarrow> json \<Rightarrow> nat option \<Rightarrow> json \<Rightarrow> json option
    \<Rightarrow> pyfloat \<Rightarrow> exn + video_info" where
  "build_info b data st_size vs audio_stream fps_v =
     bind_exn (py_get data ''format'' (JObj [])) (\<lambda>fmt.
     bind_exn (py_get fmt ''duration'' (JNum (Fin 0))) (\<lambda>duration_v.
     bind_exn (py_float b duration_v) (\<lambda>duration_r.
     (case st_size of
        None \<Rightarrow> Inl FileNotFoundError
      | Some sz \<Rightarrow>
     bind_exn (py_get vs ''width'' (JNum (Fin 0))) (\<lambda>width_v.
     bind_exn (py_get vs ''height'' (JNum (Fin 0))) (\<lambda>height_v.
     bind_exn (py_get vs ''codec_name'' (JStr ''unknown'')) (\<lambda>codec_v.
     bind_exn (py_get data ''format'' (JObj [])) (\<lambda>fmt2.
     bind_exn (py_get fmt2 ''bit_rate'' (JNum (Fin 0))) (\<lambda>bit_rate_v.
     bind_exn (py_int b bit_rate_v) (\<lambda>bit_rate_i.
     bind_exn (case audio_stream of
                 None \<Rightarrow> Inr (JStr ''none'')
               | Some as \<Rightarrow> py_get as ''codec_name'' (JStr ''none'')) (\<lambda>audio_codec_v.
     bind_exn (py_get vs ''nb_frames'' (JNum (float_mul b fps_v duration_r))) (\<lambda>nb_frames_v.
     bind_exn (py_int b nb_frames_v) (\<lambda>frame_count_i.
       Inr \<lparr>fps = fps_v, width = width_v, height = height_v, codec = codec_v,
            duration = duration_r, file_size = float_div b (Fin (real sz)) (Fin (1024 * 1024)),
            bitrate = bit_rate_i div 1000, has_audio = (audio_stream \<noteq> None),
            audio_codec = audio_codec_v, frame_count = frame_count_i\<rparr>)))))))))))))"



text \<open>Lines 61 to 98: from the parsed \<^verbatim>\<open>data\<close> to the returned dictionary.\<close>

definition get_video_info_parsed :: "builtins \<Rightarrow> json \<Rightarrow> nat option \<Rightarrow> exn + video_info" where
  "get_video_info_parsed b data st_size =
     bind_exn (py_get data ''streams'' (JArr [])) (\<lambda>streams_v.
     bind_exn (py_iter streams_v) (\<lambda>streams.
     bind_exn (find_streams streams None None) (\<lambda>(video_stream, audio_stream).
     (case video_stream of
        None \<Rightarrow> Inl (RuntimeError ''No video stream found'')
      | Some vs \<Rightarrow>
     bind_exn (py_get vs ''r_frame_rate'' (JStr ''30/1'')) (\<lambda>fps_str.
     bind_exn (calculate_fps b fps_str) (\<lambda>fps_v.
       build_info b data st_size vs audio_stream fps_v))))))"

text \<open>
  The whole function. \<open>ffprobe_path\<close> is the argument, \<open>which\<close> what
  \<^verbatim>\<open>shutil.which('ffprobe')\<close> finds, \<open>result\<close> what \<^verbatim>\<open>subprocess.run\<close> returns.
\<close>

definition py_or :: "string option \<Rightarrow> string option \<Rightarrow> string option" where
  "py_or a b = (case a of None \<Rightarrow> b | Some s \<Rightarrow> if s = [] then b else Some s)"

definition truthy :: "string option \<Rightarrow> bool" where
  "truthy a = (case a of None \<Rightarrow> False | Some s \<Rightarrow> s \<noteq> [])"

definition get_video_info :: "builtins \<Rightarrow> string option \<Rightarrow> string option \<Rightarrow> completed
    \<Rightarrow> nat option \<Rightarrow> exn + video_info" where
  "get_video_info b ffprobe_path which result st_size =
     (if \<not> truthy (py_or ffprobe_path which) then Inl (RuntimeError ''ffprobe not found'')
      else if returncode result \<noteq> 0 then
        Inl (RuntimeError (''Failed to get video info: '' @ stderr result))
      else (case json_loads b (stdout result) of
              None \<Rightarrow> Inl ValueError
            | Some data \<Rightarrow> get_video_info_parsed b data st_size))"

text \<open>
  A fragment of the built-ins for concrete runs. \<^verbatim>\<open>float\<close> and \<^verbatim>\<open>int\<close> read a non-empty
  string of decimal digits, as Python does, and reject every other string (Python accepts
  more). The quotient and the product are exact on finite operands: they are the float
  operations wherever the exact result is a float, as it is in the runs below
  (\<open>0 / 1\<close>, \<open>0 / 1048576\<close>, \<open>1048576 / 1048576\<close>, \<open>0 * 0\<close>, \<open>30 * 10\<close>).
\<close>

definition exact_div :: "pyfloat \<Rightarrow> pyfloat \<Rightarrow> pyfloat" where
  "exact_div x y =
     (case x of
        Fin a \<Rightarrow> (case y of Fin c \<Rightarrow> Fin (a / c) | PosInf \<Rightarrow> NaN | NegInf \<Rightarrow> NaN | NaN \<Rightarrow> NaN)
      | PosInf \<Rightarrow> NaN | NegInf \<Rightarrow> NaN | NaN \<Rightarrow> NaN)"

definition exact_mul :: "pyfloat \<Rightarrow> pyfloat \<Rightarrow> pyfloat" where
  "exact_mul x y =
     (case x of
        Fin a \<Rightarrow> (case y of Fin c \<Rightarrow> Fin (a * c) | PosInf \<Rightarrow> NaN | NegInf \<Rightarrow> NaN | NaN \<Rightarrow> NaN)
      | PosInf \<Rightarrow> NaN | NegInf \<Rightarrow> NaN | NaN \<Rightarrow> NaN)"

fun dec_nat :: "string \<Rightarrow> nat \<Rightarrow> nat option" where
  "dec_nat [] acc = Some acc"
| "dec_nat (c # cs) acc =
     (if c \<in> set ''0123456789'' then dec_nat cs (10 * acc + (of_char c - 48)) else None)"

definition dec_builtins :: builtins where
  "dec_builtins =
     \<lparr>float_of_str = (\<lambda>s. if s = [] then None else map_option (\<lambda>n. Fin (real n)) (dec_nat s 0)),
      int_of_str = (\<lambda>s. if s = [] then None else map_option int (dec_nat s 0)),
      json_loads = (\<lambda>s. None),
      float_div = exact_div,
      float_mul = exact_mul\<rparr>"

definition zero_rate_data :: json where
  "zero_rate_data =
     JObj [(''streams'',
            JArr [JObj [(''codec_type'', JStr ''video''), (''r_frame_rate'', JStr ''0/1'')]])]"


text \<open>A video whose frame rate the probe reports as unknown, \<^verbatim>\<open>"0/0"\<close>.\<close>

definition unknown_rate_data :: json where
  "unknown_rate_data =
     JObj [(''streams'',
            JArr [JObj [(''codec_type'', JStr ''audio''), (''codec_name'', JStr ''aac'')],
                  JObj [(''codec_type'', JStr ''video''),
                        (''r_frame_rate'', JStr ''0/0''),
                        (''nb_frames'', JStr ''300'')]]),
           (''format'', JObj [(''duration'', JStr ''10''), (''bit_rate'', JStr ''800000'')])]"

section \<open>The pipeline: \<^verbatim>\<open>ufps/core.py\<close>\<close>

subsection \<open>The world outside the program\<close>

text \<open>
  A path is the list of its components, from the root. The state that the functions of
  \<^verbatim>\<open>core.py\<close> act on is the set of the paths that exist, the working directory of the
  process, \<^verbatim>\<open>sys.path\<close>, and the trace of what the process has done that can be seen
  from outside: the commands it has run, each with the working directory it ran in, and
  the progress it has reported. The system calls themselves (\<^verbatim>\<open>mkdir\<close>, \<^verbatim>\<open>chdir\<close>,
  \<^verbatim>\<open>rmtree\<close>, starting a process) are taken to succeed; what a command does is not.
\<close>

type_synonym path = "string list"

datatype arg = Lit string | StrPath path | StrInt int | StrReal real

type_synonym cmd = "arg list"

datatype label =
    Extracting_frames
  | Running_interpolation int
  | Processing_audio
  | Encoding_final_video
  | Complete

datatype event = Run path cmd | Progress label nat

record world =
  files :: "path list"
  cwd :: path
  sys_path :: "path list"
  trace :: "event list"

text \<open>
  What the program reads from its environment: the executables on the search path, the
  two environment variables, the home directory, the interpreter that \<^verbatim>\<open>sys.executable\<close>
  names, the directory that \<^verbatim>\<open>tempfile.mkdtemp\<close> picks, and the behaviour of every
  command: its \<^verbatim>\<open>CompletedProcess\<close> and the paths that exist when it has ended.
\<close>

record env =
  which_ffmpeg :: "string option"
  which_ffprobe :: "string option"
  environ_rife_dir :: "path option"
  environ_models_dir :: "path option"
  home :: path
  executable :: string
  tmp_dir :: path
  run_tool :: "cmd \<Rightarrow> world \<Rightarrow> completed \<times> path list"

subsection \<open>Computations that change the world and may raise\<close>

type_synonym 'a action = "world \<Rightarrow> (exn + 'a) \<times> world"

definition ret :: "'a \<Rightarrow> 'a action" where
  "ret x w = (Inr x, w)"

definition raise :: "exn \<Rightarrow> 'a action" where
  "raise e w = (Inl e, w)"

definition bnd :: "'a action \<Rightarrow> ('a \<Rightarrow> 'b action) \<Rightarrow> 'b action" where
  "bnd m f w = (case m w of (Inl e, w') \<Rightarrow> (Inl e, w') | (Inr x, w') \<Rightarrow> f x w')"

text \<open>
  \<^verbatim>\<open>try: body finally: fin\<close>. The final block runs on every exit of the body; when it
  ends normally the outcome of the body stands, and when it raises its exception replaces
  that outcome.
\<close>

definition try_finally :: "'a action \<Rightarrow> unit action \<Rightarrow> 'a action" where
  "try_finally body fin w =
     (case body w of
        (r, w') \<Rightarrow> (case fin w' of (Inl e, w'') \<Rightarrow> (Inl e, w'') | (Inr u, w'') \<Rightarrow> (r, w'')))"

text \<open>
  Reading a global name of the module: \<open>g\<close> lists the names bound in the module. The
  names that \<^verbatim>\<open>core.py\<close> binds are its imports and its three definitions; \<^verbatim>\<open>sys\<close> is
  not among them, and it is not a built-in name either.
\<close>

definition core_globals :: "string list" where
  "core_globals =
     [''os'', ''subprocess'', ''shutil'', ''tempfile'', ''Path'', ''math'', ''datetime'',
      ''VideoProcessor'', ''RIFEInterpolator'', ''process_video'']"

definition lookup_name :: "string list \<Rightarrow> string \<Rightarrow> unit action" where
  "lookup_name g name = (if name \<in> set g then ret () else raise (NameError name))"

subsection \<open>The file system and the processes\<close>

definition str_path :: "path \<Rightarrow> string" where
  "str_path p = concat (map (\<lambda>c. ''/'' @ c) p)"

definition path_exists :: "path \<Rightarrow> world \<Rightarrow> bool" where
  "path_exists p w = (p \<in> set (files w))"

text \<open>\<^verbatim>\<open>p.mkdir(parents=True, exist_ok=True)\<close>.\<close>

definition mkdir_parents :: "path \<Rightarrow> unit action" where
  "mkdir_parents p w =
     (Inr (), w\<lparr>files := files w @ filter (\<lambda>q. q \<noteq> [] \<and> q \<notin> set (files w)) (prefixes p)\<rparr>)"

text \<open>\<^verbatim>\<open>list(d.glob("*.png"))\<close>: the entries of \<open>d\<close> whose name ends in \<^verbatim>\<open>.png\<close>.\<close>

definition glob_png :: "path \<Rightarrow> world \<Rightarrow> path list" where
  "glob_png d w =
     filter (\<lambda>p. p \<noteq> [] \<and> butlast p = d \<and> suffix ''.png'' (last p)) (remdups (files w))"

definition rmtree :: "path \<Rightarrow> unit action" where
  "rmtree d w = (Inr (), w\<lparr>files := filter (\<lambda>p. \<not> prefix d p) (files w)\<rparr>)"

definition getcwd :: "path action" where
  "getcwd w = (Inr (cwd w), w)"

definition chdir :: "path \<Rightarrow> unit action" where
  "chdir p w = (Inr (), w\<lparr>cwd := p\<rparr>)"

text \<open>
  \<^verbatim>\<open>tempfile.mkdtemp(prefix=...)\<close> creates a directory that did not exist. The name
  built on lines 184 to 186 is only the prefix of the name of that directory.
\<close>

definition mkdtemp :: "env \<Rightarrow> path action" where
  "mkdtemp en w =
     (if tmp_dir en \<in> set (files w) then (Inl FileExistsError, w)
      else (Inr (tmp_dir en), w\<lparr>files := files w @ [tmp_dir en]\<rparr>))"

text \<open>\<^verbatim>\<open>subprocess.run(cmd, capture_output=True, text=True)\<close>: no \<^verbatim>\<open>check\<close>, so the exit
  status does not raise.\<close>

definition subprocess_run :: "env \<Rightarrow> cmd \<Rightarrow> completed action" where
  "subprocess_run en c w =
     (case run_tool en c w of
        (result, fs) \<Rightarrow> (Inr result, w\<lparr>files := fs, trace := trace w @ [Run (cwd w) c]\<rparr>))"

subsection \<open>\<^verbatim>\<open>VideoProcessor\<close>\<close>

record video_processor =
  ffmpeg :: string
  ffprobe :: string

definition VideoProcessor_init :: "env \<Rightarrow> string option \<Rightarrow> string option
    \<Rightarrow> video_processor action" where
  "VideoProcessor_init en ffmpeg_path ffprobe_path =
     (case (py_or ffmpeg_path (which_ffmpeg en), py_or ffprobe_path (which_ffprobe en)) of
        (Some fm, Some fp) \<Rightarrow>
          (if fm = [] then raise (RuntimeError ''FFmpeg not found. Please install ffmpeg.'')
           else if fp = [] then raise (RuntimeError ''FFmpeg not found. Please install ffmpeg.'')
           else ret \<lparr>ffmpeg = fm, ffprobe = fp\<rparr>)
      | _ \<Rightarrow> raise (RuntimeError ''FFmpeg not found. Please install ffmpeg.''))"

definition extract_frames_cmd :: "video_processor \<Rightarrow> path \<Rightarrow> path \<Rightarrow> int \<Rightarrow> cmd" where
  "extract_frames_cmd self video_path output_dir quality =
     [Lit (ffmpeg self), Lit ''-i'', StrPath video_path, Lit ''-qscale:v'', StrInt quality,
      Lit ''-qmin'', Lit ''1'', StrPath (output_dir @ [''frame_%08d.png'']),
      Lit ''-loglevel'', Lit ''error'']"

definition extract_frames :: "env \<Rightarrow> video_processor \<Rightarrow> path \<Rightarrow> path \<Rightarrow> int \<Rightarrow> nat action" where
  "extract_frames en self video_path output_dir quality =
     bnd (mkdir_parents output_dir) (\<lambda>u.
     bnd (subprocess_run en (extract_frames_cmd self video_path output_dir quality)) (\<lambda>result.
       if returncode result \<noteq> 0 then
         raise (RuntimeError (''Failed to extract frames: '' @ stderr result))
       else (\<lambda>w. (Inr (length (glob_png output_dir w)), w))))"

definition extract_audio_cmd :: "video_processor \<Rightarrow> path \<Rightarrow> path \<Rightarrow> cmd" where
  "extract_audio_cmd self video_path output_path =
     [Lit (ffmpeg self), Lit ''-i'', StrPath video_path, Lit ''-vn'', Lit ''-acodec'',
      Lit ''copy'', StrPath output_path, Lit ''-loglevel'', Lit ''error'', Lit ''-y'']"

definition extract_audio :: "env \<Rightarrow> video_processor \<Rightarrow> path \<Rightarrow> path \<Rightarrow> path option action" where
  "extract_audio en self video_path output_path =
     bnd (subprocess_run en (extract_audio_cmd self video_path output_path)) (\<lambda>result.
       (\<lambda>w. (Inr (if path_exists output_path w then Some output_path else None), w)))"

definition encode_cmd_audio :: "video_processor \<Rightarrow> path \<Rightarrow> path \<Rightarrow> real \<Rightarrow> path \<Rightarrow> int \<Rightarrow> cmd" where
  "encode_cmd_audio self frames_dir output_path fps_v audio_path crf =
     [Lit (ffmpeg self), Lit ''-r'', StrReal fps_v, Lit ''-i'',
      StrPath (frames_dir @ [''frame_%08d.png'']), Lit ''-i'', StrPath audio_path,
      Lit ''-c:v'', Lit ''libx264'', Lit ''-crf'', StrInt crf, Lit ''-preset'', Lit ''slow'',
      Lit ''-pix_fmt'', Lit ''yuv420p'', Lit ''-c:a'', Lit ''copy'', StrPath output_path,
      Lit ''-loglevel'', Lit ''error'', Lit ''-y'']"

definition encode_cmd_silent :: "video_processor \<Rightarrow> path \<Rightarrow> path \<Rightarrow> real \<Rightarrow> int \<Rightarrow> cmd" where
  "encode_cmd_silent self frames_dir output_path fps_v crf =
     [Lit (ffmpeg self), Lit ''-r'', StrReal fps_v, Lit ''-i'',
      StrPath (frames_dir @ [''frame_%08d.png'']),
      Lit ''-c:v'', Lit ''libx264'', Lit ''-crf'', StrInt crf, Lit ''-preset'', Lit ''slow'',
      Lit ''-pix_fmt'', Lit ''yuv420p'', StrPath output_path,
      Lit ''-loglevel'', Lit ''error'', Lit ''-y'']"

definition encode_video :: "env \<Rightarrow> video_processor \<Rightarrow> path \<Rightarrow> path \<Rightarrow> real \<Rightarrow> path option
    \<Rightarrow> int \<Rightarrow> path action" where
  "encode_video en self frames_dir output_path fps_v audio_path crf w =
     bnd (subprocess_run en
            (case audio_path of
               None \<Rightarrow> encode_cmd_silent self frames_dir output_path fps_v crf
             | Some a \<Rightarrow>
                 if path_exists a w then
                   encode_cmd_audio self frames_dir output_path fps_v a crf
                 else encode_cmd_silent self frames_dir output_path fps_v crf))
       (\<lambda>result.
          if returncode result \<noteq> 0 then
            raise (RuntimeError (''Failed to encode video: '' @ stderr result))
          else ret output_path) w"

subsection \<open>\<^verbatim>\<open>RIFEInterpolator\<close>\<close>

record rife_interpolator =
  rife_dir :: path
  models_dir :: path

definition default_dir :: "path option \<Rightarrow> path option \<Rightarrow> path \<Rightarrow> path" where
  "default_dir given environ dflt =
     (case given of
        Some p \<Rightarrow> p
      | None \<Rightarrow> (case environ of Some p \<Rightarrow> p | None \<Rightarrow> dflt))"

definition RIFEInterpolator_init :: "string list \<Rightarrow> env \<Rightarrow> path option \<Rightarrow> path option
    \<Rightarrow> rife_interpolator action" where
  "RIFEInterpolator_init g en rife_dir_arg models_dir_arg w =
     (let rd = default_dir rife_dir_arg (environ_rife_dir en) (home en @ [''.ufps'', ''RIFE'']);
          md = default_dir models_dir_arg (environ_models_dir en)
                 (home en @ [''.ufps'', ''models''])
      in if \<not> path_exists rd w then
           raise (RuntimeError (''RIFE not found at '' @ str_path rd)) w
         else if \<not> path_exists md w then
           raise (RuntimeError (''Models not found at '' @ str_path md)) w
         else
           bnd (lookup_name g ''sys'') (\<lambda>u w'.
             (Inr \<lparr>rife_dir = rd, models_dir = md\<rparr>, w'\<lparr>sys_path := rd # sys_path w'\<rparr>)) w)"

text \<open>
  \<^verbatim>\<open>int(math.log2(scale))\<close> for an integer scale: \<^verbatim>\<open>math.log2\<close> raises \<^verbatim>\<open>ValueError\<close>
  below 1; above, the logarithm is taken exactly (as it is at the powers of two).
\<close>

fun ilog2 :: "nat \<Rightarrow> nat" where
  "ilog2 n = (if n < 2 then 0 else Suc (ilog2 (n div 2)))"

declare ilog2.simps [simp del]

definition exp_value_of :: "int \<Rightarrow> int action" where
  "exp_value_of scale_v =
     (if scale_v \<le> 0 then raise ValueError else ret (int (ilog2 (nat scale_v))))"

text \<open>
  One invocation of a script (lines 140 to 154, and again 157 to 169): building the command
  reads \<^verbatim>\<open>sys.executable\<close> first; the result is the number of output frames when the
  command exits with 0 and the output directory has a \<^verbatim>\<open>.png\<close> file, which is where the
  source returns, and \<open>None\<close> where the source goes on.
\<close>

definition invoke :: "string list \<Rightarrow> env \<Rightarrow> cmd \<Rightarrow> path \<Rightarrow> nat option action" where
  "invoke g en args output_dir =
     bnd (lookup_name g ''sys'') (\<lambda>u.
     bnd (subprocess_run en (Lit (executable en) # args)) (\<lambda>result w.
       if returncode result = 0 then
         (if glob_png output_dir w \<noteq> [] then (Inr (Some (length (glob_png output_dir w))), w)
          else (Inr None, w))
       else (Inr None, w)))"

definition script_args :: "path \<Rightarrow> path \<Rightarrow> path \<Rightarrow> int \<Rightarrow> cmd" where
  "script_args script_path input_dir output_dir exp_value =
     [StrPath script_path, Lit ''--img'', StrPath input_dir, Lit ''--output'',
      StrPath output_dir, Lit ''--exp'', StrInt exp_value]"

text \<open>The loop over the scripts (lines 135 to 169); \<open>None\<close> when it ends without a return.\<close>

fun scripts_loop :: "string list \<Rightarrow> env \<Rightarrow> rife_interpolator \<Rightarrow> path \<Rightarrow> path \<Rightarrow> int
    \<Rightarrow> string list \<Rightarrow> nat option action" where
  "scripts_loop g en self input_dir output_dir exp_value [] w = (Inr None, w)"
| "scripts_loop g en self input_dir output_dir exp_value (script # rest) w =
     (if \<not> path_exists (rife_dir self @ [script]) w then
        scripts_loop g en self input_dir output_dir exp_value rest w
      else
        (case invoke g en
                (script_args (rife_dir self @ [script]) input_dir output_dir exp_value
                   @ [Lit ''--modelDir'', StrPath (models_dir self)]) output_dir w of
           (Inl e, w1) \<Rightarrow> (Inl e, w1)
         | (Inr (Some n), w1) \<Rightarrow> (Inr (Some n), w1)
         | (Inr None, w1) \<Rightarrow>
             (case invoke g en
                     (script_args (rife_dir self @ [script]) input_dir output_dir exp_value)
                     output_dir w1 of
                (Inl e, w2) \<Rightarrow> (Inl e, w2)
              | (Inr (Some n), w2) \<Rightarrow> (Inr (Some n), w2)
              | (Inr None, w2) \<Rightarrow>
                  scripts_loop g en self input_dir output_dir exp_value rest w2)))"

definition scripts :: "string list" where
  "scripts = [''inference_video.py'', ''inference_img.py'', ''inference.py'']"

definition interpolate :: "string list \<Rightarrow> env \<Rightarrow> rife_interpolator \<Rightarrow> path \<Rightarrow> path \<Rightarrow> int
    \<Rightarrow> nat action" where
  "interpolate g en self input_dir output_dir scale_v =
     bnd (mkdir_parents output_dir) (\<lambda>u.
     bnd (exp_value_of scale_v) (\<lambda>exp_value.
     bnd getcwd (\<lambda>original_dir.
       try_finally
         (bnd (chdir (rife_dir self)) (\<lambda>u.
          bnd (scripts_loop g en self input_dir output_dir exp_value scripts) (\<lambda>found.
            case found of
              Some n \<Rightarrow> ret n
            | None \<Rightarrow>
                raise (RuntimeError
                  ''RIFE interpolation failed - no compatible script found''))))
         (chdir original_dir))))"

subsection \<open>\<^verbatim>\<open>process_video\<close>\<close>

text \<open>The callback is an observer: it is told a label and a percentage, and may raise.\<close>

type_synonym callback = "(label \<Rightarrow> nat \<Rightarrow> exn option) option"

definition report :: "callback \<Rightarrow> label \<Rightarrow> nat \<Rightarrow> unit action" where
  "report progress_callback l pct w =
     (case progress_callback of
        None \<Rightarrow> (Inr (), w)
      | Some f \<Rightarrow>
          (case f l pct of
             None \<Rightarrow> (Inr (), w\<lparr>trace := trace w @ [Progress l pct]\<rparr>)
           | Some e \<Rightarrow> (Inl e, w\<lparr>trace := trace w @ [Progress l pct]\<rparr>)))"

text \<open>The \<^verbatim>\<open>finally\<close> block of \<^verbatim>\<open>process_video\<close> (lines 222 to 225).\<close>

definition cleanup :: "path \<Rightarrow> unit action" where
  "cleanup temp_dir w = (if path_exists temp_dir w then rmtree temp_dir w else (Inr (), w))"

definition process_video :: "string list \<Rightarrow> env \<Rightarrow> path \<Rightarrow> path \<Rightarrow> int \<Rightarrow> real \<Rightarrow> int
    \<Rightarrow> callback \<Rightarrow> bool action" where
  "process_video g en input_path output_path scale_v target_fps crf progress_callback =
     bnd (mkdtemp en) (\<lambda>temp_dir.
       try_finally
         (bnd (VideoProcessor_init en None None) (\<lambda>video_proc.
          bnd (RIFEInterpolator_init g en None None) (\<lambda>rife_proc.
          bnd (report progress_callback Extracting_frames 0) (\<lambda>u.
          bnd (extract_frames en video_proc input_path (temp_dir @ [''frames'']) 1)
            (\<lambda>frame_count.
          bnd (report progress_callback (Running_interpolation scale_v) 25) (\<lambda>u.
          bnd (interpolate g en rife_proc (temp_dir @ [''frames''])
                 (temp_dir @ [''interpolated'']) scale_v) (\<lambda>interp_count.
          bnd (report progress_callback Processing_audio 50) (\<lambda>u.
          bnd (extract_audio en video_proc input_path (temp_dir @ [''audio.aac''])) (\<lambda>audio.
          bnd (report progress_callback Encoding_final_video 75) (\<lambda>u.
          bnd (encode_video en video_proc (temp_dir @ [''interpolated'']) output_path
                 target_fps audio crf) (\<lambda>encoded.
          bnd (report progress_callback Complete 100) (\<lambda>u.
            ret True))))))))))))
         (cleanup temp_dir))"

subsection \<open>Traces\<close>

text \<open>
  \<open>runs_in d evs\<close>: every event of \<open>evs\<close> is a command run in the working directory
  \<open>d\<close>. \<open>extends_in d w w'\<close>: from \<open>w\<close> to \<open>w'\<close> the working directory is the same and
  the trace has grown by commands run in \<open>d\<close>.
\<close>

definition runs_in :: "path \<Rightarrow> event list \<Rightarrow> bool" where
  "runs_in d evs = list_all (\<lambda>ev. case ev of Run d' c \<Rightarrow> d' = d | Progress l pct \<Rightarrow> False) evs"

definition extends_in :: "path \<Rightarrow> world \<Rightarrow> world \<Rightarrow> bool" where
  "extends_in d w w' = (cwd w' = cwd w \<and> (\<exists>evs. trace w' = trace w @ evs \<and> runs_in d evs))"

subsection \<open>The fallback search, in the words of the specification\<close>

text \<open>
  The search of section 4.4 of the specification, written from its words and not from
  the code: a candidate/variant succeeds when the command exits with 0 and the output
  directory then has at least one \<^verbatim>\<open>.png\<close> file; the variants of a candidate are the
  invocation with the model directory and then the one without it; the candidates are
  tried in order, those that are absent are passed over, and the search ends at the first
  candidate/variant that succeeds, with the number of output frames, or with \<open>None\<close>
  when every one has failed. \<open>search_start\<close> is the state in which the search begins:
  the output directory made, the working directory the root of the tool.
\<close>

definition succeeded :: "completed \<Rightarrow> path \<Rightarrow> world \<Rightarrow> bool" where
  "succeeded result output_dir w = (returncode result = 0 \<and> glob_png output_dir w \<noteq> [])"

definition spec_attempt :: "env \<Rightarrow> path \<Rightarrow> cmd \<Rightarrow> world \<Rightarrow> nat option \<times> world" where
  "spec_attempt en output_dir c w =
     (case run_tool en c w of
        (result, fs) \<Rightarrow>
          (if succeeded result output_dir (w\<lparr>files := fs, trace := trace w @ [Run (cwd w) c]\<rparr>)
           then Some (length (glob_png output_dir
                        (w\<lparr>files := fs, trace := trace w @ [Run (cwd w) c]\<rparr>)))
           else None,
           w\<lparr>files := fs, trace := trace w @ [Run (cwd w) c]\<rparr>))"

fun spec_first_success :: "env \<Rightarrow> path \<Rightarrow> cmd list \<Rightarrow> world \<Rightarrow> nat option \<times> world" where
  "spec_first_success en output_dir [] w = (None, w)"
| "spec_first_success en output_dir (c # cs) w =
     (case spec_attempt en output_dir c w of
        (Some n, w1) \<Rightarrow> (Some n, w1)
      | (None, w1) \<Rightarrow> spec_first_success en output_dir cs w1)"

definition variants :: "env \<Rightarrow> rife_interpolator \<Rightarrow> path \<Rightarrow> path \<Rightarrow> int \<Rightarrow> string \<Rightarrow> cmd list" where
  "variants en self input_dir output_dir exp_value script =
     [Lit (executable en) #
        script_args (rife_dir self @ [script]) input_dir output_dir exp_value
          @ [Lit ''--modelDir'', StrPath (models_dir self)],
      Lit (executable en) #
        script_args (rife_dir self @ [script]) input_dir output_dir exp_value]"

fun spec_search :: "env \<Rightarrow> rife_interpolator \<Rightarrow> path \<Rightarrow> path \<Rightarrow> int \<Rightarrow> string list
    \<Rightarrow> world \<Rightarrow> nat option \<times> world" where
  "spec_search en self input_dir output_dir exp_value [] w = (None, w)"
| "spec_search en self input_dir output_dir exp_value (script # rest) w =
     (if path_exists (rife_dir self @ [script]) w then
        (case spec_first_success en output_dir
                (variants en self input_dir output_dir exp_value script) w of
           (Some n, w1) \<Rightarrow> (Some n, w1)
         | (None, w1) \<Rightarrow> spec_search en self input_dir output_dir exp_value rest w1)
      else spec_search en self input_dir output_dir exp_value rest w)"

definition search_start :: "rife_interpolator \<Rightarrow> path \<Rightarrow> world \<Rightarrow> world" where
  "search_start self output_dir w = (snd (mkdir_parents output_dir w))\<lparr>cwd := rife_dir self\<rparr>"

subsection \<open>The pipeline as a sequence of stages\<close>

text \<open>
  The body of the \<^verbatim>\<open>try\<close> block of \<^verbatim>\<open>process_video\<close> once more, as the list of its
  eleven steps in the order of the source. The local variables that a later step reads
  are a record; its initial values stand for the variables not yet bound, and no step
  reads one before the step that binds it. \<open>run_stages\<close> runs the steps in order
  and stops at the first that raises.
\<close>

record locals =
  video_proc :: video_processor
  rife_proc :: rife_interpolator
  audio :: "path option"

definition initial_locals :: locals where
  "initial_locals =
     \<lparr>video_proc = \<lparr>ffmpeg = [], ffprobe = []\<rparr>,
      rife_proc = \<lparr>rife_dir = [], models_dir = []\<rparr>,
      audio = None\<rparr>"

fun run_stages :: "('c \<Rightarrow> 'c action) list \<Rightarrow> 'c \<Rightarrow> 'c action" where
  "run_stages [] c w = (Inr c, w)"
| "run_stages (s # ss) c w =
     (case s c w of
        (Inl e, w') \<Rightarrow> (Inl e, w')
      | (Inr c', w') \<Rightarrow> run_stages ss c' w')"

definition pipeline_stages :: "string list \<Rightarrow> env \<Rightarrow> path \<Rightarrow> path \<Rightarrow> int \<Rightarrow> real \<Rightarrow> int
    \<Rightarrow> callback \<Rightarrow> path \<Rightarrow> (locals \<Rightarrow> locals action) list" where
  "pipeline_stages g en input_path output_path scale_v target_fps crf progress_callback temp_dir =
     [\<lambda>c. bnd (VideoProcessor_init en None None) (\<lambda>vp. ret (c\<lparr>video_proc := vp\<rparr>)),
      \<lambda>c. bnd (RIFEInterpolator_init g en None None) (\<lambda>rp. ret (c\<lparr>rife_proc := rp\<rparr>)),
      \<lambda>c. bnd (report progress_callback Extracting_frames 0) (\<lambda>u. ret c),
      \<lambda>c. bnd (extract_frames en (video_proc c) input_path (temp_dir @ [''frames'']) 1)
             (\<lambda>frame_count. ret c),
      \<lambda>c. bnd (report progress_callback (Running_interpolation scale_v) 25) (\<lambda>u. ret c),
      \<lambda>c. bnd (interpolate g en (rife_proc c) (temp_dir @ [''frames''])
                  (temp_dir @ [''interpolated'']) scale_v) (\<lambda>interp_count. ret c),
      \<lambda>c. bnd (report progress_callback Processing_audio 50) (\<lambda>u. ret c),
      \<lambda>c. bnd (extract_audio en (video_proc c) input_path (temp_dir @ [''audio.aac'']))
             (\<lambda>a. ret (c\<lparr>audio := a\<rparr>)),
      \<lambda>c. bnd (report progress_callback Encoding_final_video 75) (\<lambda>u. ret c),
      \<lambda>c. bnd (encode_video en (video_proc c) (temp_dir @ [''interpolated'']) output_path
                  target_fps (audio c) crf) (\<lambda>encoded. ret c),
      \<lambda>c. bnd (report progress_callback Complete 100) (\<lambda>u. ret c)]"

subsection \<open>A concrete installation\<close>

text \<open>
  For concrete runs: RIFE is installed with the script \<^verbatim>\<open>inference_img.py\<close> only. The
  script rejects \<^verbatim>\<open>--modelDir\<close> and, without it, writes one frame; the video has no
  audio track, so the extraction of the audio fails and writes nothing; extracting the
  frames and encoding succeed. \<open>fixed_globals\<close> is the module with \<^verbatim>\<open>sys\<close> imported.
\<close>

definition ok_result :: completed where
  "ok_result = \<lparr>returncode = 0, stdout = [], stderr = []\<rparr>"

definition failed_result :: completed where
  "failed_result = \<lparr>returncode = 1, stdout = [], stderr = ''error''\<rparr>"

definition demo_tool :: "cmd \<Rightarrow> world \<Rightarrow> completed \<times> path list" where
  "demo_tool c w =
     (if Lit ''--modelDir'' \<in> set c then (failed_result, files w)
      else if Lit ''--img'' \<in> set c then
        (ok_result, files w @ [[''tmp'', ''ufps_x'', ''interpolated'', ''00000001.png'']])
      else if Lit ''-vn'' \<in> set c then (failed_result, files w)
      else if Lit ''-qscale:v'' \<in> set c then
        (ok_result, files w @ [[''tmp'', ''ufps_x'', ''frames'', ''frame_00000001.png'']])
      else (ok_result, files w @ [[''out.mp4'']]))"

definition demo_env :: env where
  "demo_env =
     \<lparr>which_ffmpeg = Some ''/usr/bin/ffmpeg'', which_ffprobe = Some ''/usr/bin/ffprobe'',
      environ_rife_dir = Some [''rife''], environ_models_dir = Some [''models''],
      home = [''home''], executable = ''python3'', tmp_dir = [''tmp'', ''ufps_x''],
      run_tool = demo_tool\<rparr>"

definition demo_world :: world where
  "demo_world =
     \<lparr>files = [[''rife''], [''rife'', ''inference_img.py''], [''models''], [''in.mp4'']],
      cwd = [''home''], sys_path = [], trace = []\<rparr>"

definition demo_rife :: rife_interpolator where
  "demo_rife = \<lparr>rife_dir = [''rife''], models_dir = [''models'']\<rparr>"

definition demo_video_proc :: video_processor where
  "demo_video_proc = \<lparr>ffmpeg = ''/usr/bin/ffmpeg'', ffprobe = ''/usr/bin/ffprobe''\<rparr>"

definition fixed_globals :: "string list" where
  "fixed_globals = ''sys'' # core_globals"

section \<open>Properties of the frame-rate options\<close>

subsection \<open>Concrete runs\<close>

lemma get_fps_options_30:
  "get_fps_options 30 =
   Inr [\<lparr>target = 60, actual = 60, scale = 2, exact = False\<rparr>,
        \<lparr>target = 120, actual = 120, scale = 4, exact = False\<rparr>,
        \<lparr>target = 240, actual = 240, scale = 8, exact = False\<rparr>]"
  by (simp add: get_fps_options_def standard_fps_def py_truediv_def add_option_def)

lemma get_fps_options_120_25:
  "get_fps_options (481 / 4) =
   Inr [\<lparr>target = 240, actual = 481 / 2, scale = 2, exact = True\<rparr>]"
  by (simp add: get_fps_options_def standard_fps_def py_truediv_def add_option_def)

lemma get_fps_options_12:
  "get_fps_options 12 =
   Inr [\<lparr>target = 24, actual = 24, scale = 2, exact = True\<rparr>,
        \<lparr>target = 48, actual = 48, scale = 4, exact = False\<rparr>,
        \<lparr>target = 96, actual = 96, scale = 8, exact = False\<rparr>]"
  by (simp add: get_fps_options_def standard_fps_def py_truediv_def add_option_def)

subsection \<open>The option loop\<close>

lemma add_option_ok:
  assumes "list_all (option_ok c) options" "tgt \<le> 240" "a = c * of_int s"
    "s = 2 \<or> s = 4 \<or> s = 8"
  shows "list_all (option_ok c) (add_option tgt a s options)"
  using assms by (simp add: add_option_def option_ok_def)

lemma options_loop_ok:
  assumes "options_loop c ts options = Inr res" "list_all (option_ok c) options"
    "list_all (\<lambda>t. t \<le> 240) ts"
  shows "list_all (option_ok c) res"
  using assms
proof (induction ts arbitrary: options)
  case Nil
  then show ?case by simp
next
  case (Cons t ts)
  have t: "t \<le> 240" and ts: "list_all (\<lambda>t. t \<le> 240) ts"
    using Cons.prems(3) by simp_all
  note step = Cons.IH[OF _ _ ts]
  have a2: "list_all (option_ok c) (add_option t (c * 2) 2 options)"
    by (rule add_option_ok[OF Cons.prems(2) t]) simp_all
  have a4: "list_all (option_ok c) (add_option t (c * 4) 4 options)"
    by (rule add_option_ok[OF Cons.prems(2) t]) simp_all
  have a8: "list_all (option_ok c) (add_option t (c * 8) 8 options)"
    by (rule add_option_ok[OF Cons.prems(2) t]) simp_all
  from Cons.prems(1) show ?case
    by (simp add: py_truediv_def split: if_splits)
      (use step a2 a4 a8 Cons.prems(2) in blast)+
qed

lemma options_loop_nonzero:
  "c \<noteq> 0 \<Longrightarrow> \<exists>res. options_loop c ts options = Inr res"
  by (induction ts arbitrary: options) (simp_all add: py_truediv_def)

lemma get_fps_options_zero: "get_fps_options 0 = Inl ZeroDivisionError"
  by (simp add: get_fps_options_def standard_fps_def py_truediv_def)

lemma get_fps_options_nonzero:
  assumes "c \<noteq> 0"
  shows "\<exists>opts. get_fps_options c = Inr opts"
proof -
  obtain res where "options_loop c standard_fps [] = Inr res"
    using options_loop_nonzero[OF assms] by blast
  then show ?thesis by (simp add: get_fps_options_def)
qed

subsection \<open>The duplicate filter\<close>

lemma unique_loop_subset:
  "set (unique_loop xs seen u) \<subseteq> set xs \<union> set u"
proof (induction xs arbitrary: seen u)
  case Nil
  then show ?case by simp
next
  case (Cons x xs)
  show ?case
  proof (cases "(actual x, scale x) \<in> seen")
    case True
    then show ?thesis using Cons.IH[of seen u] by auto
  next
    case False
    then show ?thesis
      using Cons.IH[of "insert (actual x, scale x) seen" "u @ [x]"] by auto
  qed
qed

lemma unique_loop_distinct:
  assumes "distinct (map (\<lambda>opt. (actual opt, scale opt)) u)"
    "(\<lambda>opt. (actual opt, scale opt)) ` set u \<subseteq> seen"
  shows "distinct (map (\<lambda>opt. (actual opt, scale opt)) (unique_loop xs seen u))"
  using assms
proof (induction xs arbitrary: seen u)
  case Nil
  then show ?case by simp
next
  case (Cons x xs)
  show ?case
  proof (cases "(actual x, scale x) \<in> seen")
    case True
    with Cons show ?thesis by simp
  next
    case False
    have "distinct (map (\<lambda>opt. (actual opt, scale opt)) (u @ [x]))"
      using Cons.prems False by auto
    moreover have "(\<lambda>opt. (actual opt, scale opt)) ` set (u @ [x])
        \<subseteq> insert (actual x, scale x) seen"
      using Cons.prems by auto
    ultimately show ?thesis using Cons.IH False by simp
  qed
qed

lemma standard_fps_le_240: "list_all (\<lambda>t. t \<le> 240) standard_fps"
  by (simp add: standard_fps_def)

lemma get_fps_options_ok:
  assumes "get_fps_options c = Inr opts"
  shows "list_all (option_ok c) opts"
proof -
  from assms obtain options where
    ol: "options_loop c standard_fps [] = Inr options" and
    opts: "opts = sort_key actual (unique_loop options {} [])"
    by (auto simp: get_fps_options_def split: sum.splits)
  have "list_all (option_ok c) options"
    by (rule options_loop_ok[OF ol _ standard_fps_le_240]) simp
  then show ?thesis
    using unique_loop_subset[of options "{}" "[]"] by (auto simp: opts list_all_iff)
qed

subsection \<open>Claims about the options\<close>

text \<open>
  Claim C1, as the specification states it: for a current rate strictly between 0 and 240,
  every returned option has \<open>actual = current_fps * scale\<close>, a scale among 2, 4, 8, and
  \<open>actual \<le> 240\<close>. The last part fails: the bound \<open>actual \<le> 240\<close> guards only the
  branch of the options that are not exact. At 120.25 frames per second the target 240 is
  reached with scale 2 within the tolerance of 1, and the exact option has the actual
  rate 240.5.
\<close>

theorem get_fps_options_actual_bound_counterexample:
  "0 < (481 / 4 :: real) \<and> (481 / 4 :: real) < 240 \<and>
   get_fps_options (481 / 4) =
     Inr [\<lparr>target = 240, actual = 481 / 2, scale = 2, exact = True\<rparr>] \<and>
   \<not> actual \<lparr>target = 240, actual = 481 / 2, scale = 2, exact = True\<rparr> \<le> 240"
  by (simp add: get_fps_options_def standard_fps_def py_truediv_def add_option_def)

text \<open>
  Claim C1, amended: for a current rate strictly between 0 and 240, every returned option
  has \<open>actual = current_fps * scale\<close> and a scale among 2, 4, 8; an option that is not
  exact has \<open>actual \<le> 240\<close>, and an exact one is within 1 of its target, which is at most
  240. So the actual rate is always below 241.
\<close>

theorem get_fps_options_option_invariant:
  assumes "0 < c" "c < 240" "get_fps_options c = Inr opts" "opt \<in> set opts"
  shows "actual opt = c * of_int (scale opt) \<and>
     (scale opt = 2 \<or> scale opt = 4 \<or> scale opt = 8) \<and>
     (if exact opt then \<bar>actual opt - target opt\<bar> < 1 \<and> target opt \<le> 240
      else actual opt \<le> 240) \<and>
     actual opt < 241"
proof -
  have "option_ok c opt"
    using get_fps_options_ok[OF assms(3)] assms(4) by (simp add: list_all_iff)
  then have 1: "actual opt = c * of_int (scale opt)"
    and 2: "scale opt = 2 \<or> scale opt = 4 \<or> scale opt = 8"
    and 3: "if exact opt then \<bar>actual opt - target opt\<bar> < 1 \<and> target opt \<le> 240
            else actual opt \<le> 240"
    by (auto simp: option_ok_def split: if_splits)
  have 4: "actual opt < 241"
  proof (cases "exact opt")
    case True
    with 3 have "\<bar>actual opt - target opt\<bar> < 1" "target opt \<le> 240" by simp_all
    then show ?thesis by linarith
  next
    case False
    with 3 show ?thesis by simp
  qed
  from 1 2 3 4 show ?thesis by blast
qed

theorem get_fps_options_option_invariant_witness:
  "0 < (481 / 4 :: real) \<and> (481 / 4 :: real) < 240 \<and>
   get_fps_options (481 / 4) =
     Inr [\<lparr>target = 240, actual = 481 / 2, scale = 2, exact = True\<rparr>] \<and>
   actual \<lparr>target = 240, actual = 481 / 2, scale = 2, exact = True\<rparr> =
     481 / 4 * of_int (scale \<lparr>target = 240, actual = 481 / 2, scale = 2, exact = True\<rparr>) \<and>
   actual \<lparr>target = 240, actual = 481 / 2, scale = 2, exact = True\<rparr> < 241"
  using get_fps_options_option_invariant[of "481 / 4"
      "[\<lparr>target = 240, actual = 481 / 2, scale = 2, exact = True\<rparr>]"
      "\<lparr>target = 240, actual = 481 / 2, scale = 2, exact = True\<rparr>"]
    get_fps_options_120_25
  by simp

text \<open>
  Claim C2: \<^verbatim>\<open>get_fps_options(30)\<close> is claimed to contain the option
  (actual 60, scale 2, exact) and an option (actual 120, scale 4); \<^verbatim>\<open>get_fps_options(24)\<close>
  the option (actual 48, scale 2, exact); \<^verbatim>\<open>get_fps_options(29.97)\<close> an exact option within
  1 of 60. The code marks these options exact when it reaches the targets 60 and 48, but
  an earlier target (48 for the rate 30, 25 for the rate 24, 30 for the rate 29.97) has
  already produced the same pair (actual, scale) with \<open>exact = False\<close>, and the duplicate
  filter keeps the first. The runs of the code:
\<close>

theorem get_fps_options_concrete_runs:
  "get_fps_options 30 =
     Inr [\<lparr>target = 60, actual = 60, scale = 2, exact = False\<rparr>,
          \<lparr>target = 120, actual = 120, scale = 4, exact = False\<rparr>,
          \<lparr>target = 240, actual = 240, scale = 8, exact = False\<rparr>] \<and>
   get_fps_options 24 =
     Inr [\<lparr>target = 48, actual = 48, scale = 2, exact = False\<rparr>,
          \<lparr>target = 96, actual = 96, scale = 4, exact = False\<rparr>,
          \<lparr>target = 192, actual = 192, scale = 8, exact = False\<rparr>] \<and>
   get_fps_options (2997 / 100) =
     Inr [\<lparr>target = 2997 / 50, actual = 2997 / 50, scale = 2, exact = False\<rparr>,
          \<lparr>target = 2997 / 25, actual = 2997 / 25, scale = 4, exact = False\<rparr>,
          \<lparr>target = 5994 / 25, actual = 5994 / 25, scale = 8, exact = False\<rparr>]"
  by (simp add: get_fps_options_def standard_fps_def py_truediv_def add_option_def)

text \<open>
  Claim C6: whenever \<^verbatim>\<open>get_fps_options\<close> returns a list, no two of its options have the
  same pair (actual, scale), and the options are sorted strictly ascending by their
  actual rate.
\<close>

theorem get_fps_options_distinct_sorted:
  assumes "get_fps_options c = Inr opts"
  shows "distinct (map (\<lambda>opt. (actual opt, scale opt)) opts) \<and>
         sorted_wrt (<) (map actual opts)"
proof -
  from assms obtain options where
    opts: "opts = sort_key actual (unique_loop options {} [])"
    by (auto simp: get_fps_options_def split: sum.splits)
  let ?key = "\<lambda>opt. (actual opt, scale opt)"
  let ?u = "unique_loop options {} []"
  have du: "distinct (map ?key ?u)"
    by (rule unique_loop_distinct) simp_all
  have c0: "c \<noteq> 0" using get_fps_options_zero assms by auto
  have ok: "\<forall>opt\<in>set opts. option_ok c opt"
    using get_fps_options_ok[OF assms] by (simp add: list_all_iff)
  have dk: "distinct (map ?key opts)"
    using du unfolding opts by (simp add: distinct_map)
  have inj: "inj_on actual (set opts)"
  proof (rule inj_onI)
    fix x y assume xy: "x \<in> set opts" "y \<in> set opts" "actual x = actual y"
    then have "c * of_int (scale x) = c * of_int (scale y)"
      using ok by (simp add: option_ok_def)
    then have "scale x = scale y" using c0 by simp
    then have "?key x = ?key y" using xy by simp
    moreover have "inj_on ?key (set opts)" using dk by (simp add: distinct_map)
    ultimately show "x = y" using xy by (auto dest: inj_onD)
  qed
  have "distinct opts" using dk by (simp add: distinct_map)
  then have "distinct (map actual opts)" using inj by (simp add: distinct_map)
  moreover have "sorted (map actual opts)" unfolding opts by simp
  ultimately show ?thesis using dk by (simp add: strict_sorted_iff)
qed

theorem get_fps_options_distinct_sorted_witness:
  "get_fps_options 12 =
     Inr [\<lparr>target = 24, actual = 24, scale = 2, exact = True\<rparr>,
          \<lparr>target = 48, actual = 48, scale = 4, exact = False\<rparr>,
          \<lparr>target = 96, actual = 96, scale = 8, exact = False\<rparr>] \<and>
   distinct (map (\<lambda>opt. (actual opt, scale opt))
     [\<lparr>target = 24, actual = 24, scale = 2, exact = True\<rparr>,
      \<lparr>target = 48, actual = 48, scale = 4, exact = False\<rparr>,
      \<lparr>target = 96, actual = 96, scale = 8, exact = False\<rparr>]) \<and>
   sorted_wrt (<) (map actual
     [\<lparr>target = 24, actual = 24, scale = 2, exact = True\<rparr>,
      \<lparr>target = 48, actual = 48, scale = 4, exact = False\<rparr>,
      \<lparr>target = 96, actual = 96, scale = 8, exact = False\<rparr>])"
  using get_fps_options_distinct_sorted[OF get_fps_options_12] get_fps_options_12
  by blast

text \<open>
  Claim C7: \<^verbatim>\<open>get_fps_options\<close> is claimed to return for every input, 0 included. At 0
  the first target, 24, is greater than the current rate and the quotient
  \<^verbatim>\<open>target / current_fps\<close> raises \<^verbatim>\<open>ZeroDivisionError\<close>. Every other rate returns a list
  (lemma \<open>get_fps_options_nonzero\<close>).
\<close>

theorem get_fps_options_raises_at_zero:
  "get_fps_options 0 = Inl ZeroDivisionError"
  by (simp add: get_fps_options_def standard_fps_def py_truediv_def)

section \<open>Properties of the video metadata\<close>

lemma bind_exn_InrE:
  assumes "bind_exn m f = Inr y"
  obtains x where "m = Inr x" "f x = Inr y"
  using assms by (cases m) (simp_all add: bind_exn_def)

lemma find_streams_video_kept:
  "find_streams xs (Some x) a = Inr (v', a') \<Longrightarrow> v' = Some x"
proof (induction xs arbitrary: a)
  case Nil
  then show ?case by simp
next
  case (Cons y ys)
  from Cons.prems show ?case
    by (auto split: sum.splits if_splits dest!: Cons.IH)
qed

lemma find_streams_video:
  "find_streams xs None a = Inr (v', a') \<Longrightarrow>
   v' = List.find (\<lambda>s. py_getitem s ''codec_type'' = Inr (JStr ''video'')) xs"
proof (induction xs arbitrary: a)
  case Nil
  then show ?case by simp
next
  case (Cons y ys)
  from Cons.prems show ?case
    by (auto split: sum.splits if_splits dest!: Cons.IH find_streams_video_kept)
qed

lemma calculate_fps_Inr:
  assumes "calculate_fps b fps_str = Inr r"
  shows "\<exists>s. fps_str = JStr s \<and>
     (if CHR ''/'' \<in> set s then
        (\<exists>n d num den. split_on CHR ''/'' s = [n, d] \<and>
           float_of_str b n = Some num \<and> float_of_str b d = Some den \<and>
           r = (if den \<noteq> Fin 0 then float_div b num den else Fin 30))
      else float_of_str b s = Some r)"
proof (cases fps_str)
  case (JStr s)
  show ?thesis
  proof (cases "CHR ''/'' \<in> set s")
    case True
    with assms JStr obtain num den where
      m: "map (float_of_str b) (split_on CHR ''/'' s) = [Some num, Some den]"
      and r: "r = (if den \<noteq> Fin 0 then float_div b num den else Fin 30)"
      by (auto simp: calculate_fps_def split: list.splits option.splits)
    from m obtain n d where "split_on CHR ''/'' s = [n, d]"
      "float_of_str b n = Some num" "float_of_str b d = Some den"
      by (auto simp: map_eq_Cons_conv)
    with r True JStr show ?thesis by auto
  next
    case False
    with assms JStr show ?thesis
      by (auto simp: calculate_fps_def py_float_def split: option.splits)
  qed
qed (use assms in \<open>auto simp: calculate_fps_def split: if_splits\<close>)

lemma build_info_fps:
  "build_info b data st_size vs audio_stream fps_v = Inr info \<Longrightarrow> fps info = fps_v"
  unfolding build_info_def
  by (auto elim!: bind_exn_InrE split: option.splits)

lemma get_video_info_parsed_fps:
  assumes "get_video_info_parsed b data st_size = Inr info"
  shows "\<exists>streams_v streams vs a fps_str.
     py_get data ''streams'' (JArr []) = Inr streams_v \<and>
     py_iter streams_v = Inr streams \<and>
     find_streams streams None None = Inr (Some vs, a) \<and>
     py_get vs ''r_frame_rate'' (JStr ''30/1'') = Inr fps_str \<and>
     calculate_fps b fps_str = Inr (fps info)"
  using assms unfolding get_video_info_parsed_def
  by (auto elim!: bind_exn_InrE split: option.splits dest!: build_info_fps)

lemmas video_defs =
  get_video_info_parsed_def build_info_def dec_builtins_def bind_exn_def py_get_def
  py_iter_def py_getitem_def calculate_fps_def py_float_def py_int_def exact_div_def
  exact_mul_def

lemma get_video_info_parsed_zero_rate:
  "get_video_info_parsed dec_builtins zero_rate_data (Some 0) =
   Inr \<lparr>fps = Fin 0, width = JNum (Fin 0), height = JNum (Fin 0), codec = JStr ''unknown'',
        duration = Fin 0, file_size = Fin 0, bitrate = 0, has_audio = False,
        audio_codec = JStr ''none'', frame_count = 0\<rparr>"
  by (simp add: video_defs zero_rate_data_def)

lemma get_video_info_parsed_unknown_rate:
  "get_video_info_parsed dec_builtins unknown_rate_data (Some 1048576) =
   Inr \<lparr>fps = Fin 30, width = JNum (Fin 0), height = JNum (Fin 0), codec = JStr ''unknown'',
        duration = Fin 10, file_size = Fin 1, bitrate = 800, has_audio = True,
        audio_codec = JStr ''aac'', frame_count = 300\<rparr>"
  by (simp add: video_defs unknown_rate_data_def)

text \<open>
  Claim C9, as the specification states it: the descriptor returned for a parsed input with
  a video stream has a frame rate strictly greater than 0. The rate is the quotient of
  \<open>num\<close> and \<open>den\<close> whatever its value, and only a zero denominator is replaced:
  \<^verbatim>\<open>r_frame_rate = "0/1"\<close> gives the rate 0.
\<close>

theorem get_video_info_positive_rate_counterexample:
  "get_video_info_parsed dec_builtins zero_rate_data (Some 0) =
     Inr \<lparr>fps = Fin 0, width = JNum (Fin 0), height = JNum (Fin 0), codec = JStr ''unknown'',
          duration = Fin 0, file_size = Fin 0, bitrate = 0, has_audio = False,
          audio_codec = JStr ''none'', frame_count = 0\<rparr> \<and>
   \<not> float_positive
       (fps \<lparr>fps = Fin 0, width = JNum (Fin 0), height = JNum (Fin 0), codec = JStr ''unknown'',
          duration = Fin 0, file_size = Fin 0, bitrate = 0, has_audio = False,
          audio_codec = JStr ''none'', frame_count = 0\<rparr>)"
  using get_video_info_parsed_zero_rate by (simp add: float_positive_def)

text \<open>
  Claim C9, amended: whenever a descriptor is returned, the first stream of kind video
  has a string \<^verbatim>\<open>r_frame_rate\<close> (\<^verbatim>\<open>"30/1"\<close> when the field is absent); if it contains a
  slash it has the two parts \<open>num\<close> and \<open>den\<close>, and the frame rate is the float quotient of
  \<open>num\<close> and \<open>den\<close>, or 30 when \<open>den\<close> is 0; without a slash the frame rate is the number
  parsed from the string. The frame rate is strictly greater than 0 where \<open>den\<close> is 0;
  elsewhere it is what the quotient or the number is, of any sign, zero or not a number.
\<close>

theorem get_video_info_frame_rate:
  assumes "get_video_info_parsed b data st_size = Inr info"
  shows "\<exists>streams_v streams vs s.
     py_get data ''streams'' (JArr []) = Inr streams_v \<and>
     py_iter streams_v = Inr streams \<and>
     List.find (\<lambda>st. py_getitem st ''codec_type'' = Inr (JStr ''video'')) streams = Some vs \<and>
     py_get vs ''r_frame_rate'' (JStr ''30/1'') = Inr (JStr s) \<and>
     (if CHR ''/'' \<in> set s then
        (\<exists>n d num den. split_on CHR ''/'' s = [n, d] \<and>
           float_of_str b n = Some num \<and> float_of_str b d = Some den \<and>
           fps info = (if den \<noteq> Fin 0 then float_div b num den else Fin 30) \<and>
           (den = Fin 0 \<longrightarrow> float_positive (fps info)))
      else float_of_str b s = Some (fps info))"
proof -
  from get_video_info_parsed_fps[OF assms] obtain streams_v streams vs a fps_str where
    1: "py_get data ''streams'' (JArr []) = Inr streams_v" and
    2: "py_iter streams_v = Inr streams" and
    3: "find_streams streams None None = Inr (Some vs, a)" and
    4: "py_get vs ''r_frame_rate'' (JStr ''30/1'') = Inr fps_str" and
    5: "calculate_fps b fps_str = Inr (fps info)"
    by blast
  from find_streams_video[OF 3] have
    6: "List.find (\<lambda>st. py_getitem st ''codec_type'' = Inr (JStr ''video'')) streams = Some vs"
    by simp
  from calculate_fps_Inr[OF 5] obtain s where s: "fps_str = JStr s" and
    7: "if CHR ''/'' \<in> set s then
        (\<exists>n d num den. split_on CHR ''/'' s = [n, d] \<and>
           float_of_str b n = Some num \<and> float_of_str b d = Some den \<and>
           fps info = (if den \<noteq> Fin 0 then float_div b num den else Fin 30))
      else float_of_str b s = Some (fps info)"
    by blast
  have 8: "if CHR ''/'' \<in> set s then
        (\<exists>n d num den. split_on CHR ''/'' s = [n, d] \<and>
           float_of_str b n = Some num \<and> float_of_str b d = Some den \<and>
           fps info = (if den \<noteq> Fin 0 then float_div b num den else Fin 30) \<and>
           (den = Fin 0 \<longrightarrow> float_positive (fps info)))
      else float_of_str b s = Some (fps info)"
  proof (cases "CHR ''/'' \<in> set s")
    case True
    with 7 obtain n d num den where nd: "split_on CHR ''/'' s = [n, d]"
      "float_of_str b n = Some num" "float_of_str b d = Some den"
      "fps info = (if den \<noteq> Fin 0 then float_div b num den else Fin 30)"
      by auto
    have "den = Fin 0 \<longrightarrow> float_positive (fps info)"
      using nd(4) by (simp add: float_positive_def)
    with nd True show ?thesis by auto
  next
    case False
    with 7 show ?thesis by simp
  qed
  from 1 2 6 4 8 show ?thesis unfolding s by blast
qed

theorem get_video_info_frame_rate_witness:
  "get_video_info_parsed dec_builtins unknown_rate_data (Some 1048576) =
     Inr \<lparr>fps = Fin 30, width = JNum (Fin 0), height = JNum (Fin 0), codec = JStr ''unknown'',
        duration = Fin 10, file_size = Fin 1, bitrate = 800, has_audio = True,
        audio_codec = JStr ''aac'', frame_count = 300\<rparr> \<and>
   (\<exists>streams_v streams vs s.
     py_get unknown_rate_data ''streams'' (JArr []) = Inr streams_v \<and>
     py_iter streams_v = Inr streams \<and>
     List.find (\<lambda>st. py_getitem st ''codec_type'' = Inr (JStr ''video'')) streams = Some vs \<and>
     py_get vs ''r_frame_rate'' (JStr ''30/1'') = Inr (JStr s) \<and>
     (if CHR ''/'' \<in> set s then
        (\<exists>n d num den. split_on CHR ''/'' s = [n, d] \<and>
           float_of_str dec_builtins n = Some num \<and> float_of_str dec_builtins d = Some den \<and>
           fps \<lparr>fps = Fin 30, width = JNum (Fin 0), height = JNum (Fin 0),
                codec = JStr ''unknown'', duration = Fin 10, file_size = Fin 1, bitrate = 800,
                has_audio = True, audio_codec = JStr ''aac'', frame_count = 300\<rparr>
             = (if den \<noteq> Fin 0 then float_div dec_builtins num den else Fin 30) \<and>
           (den = Fin 0 \<longrightarrow>
            float_positive
              (fps \<lparr>fps = Fin 30, width = JNum (Fin 0), height = JNum (Fin 0),
                    codec = JStr ''unknown'', duration = Fin 10, file_size = Fin 1,
                    bitrate = 800, has_audio = True, audio_codec = JStr ''aac'',
                    frame_count = 300\<rparr>)))
      else float_of_str dec_builtins s
             = Some (fps \<lparr>fps = Fin 30, width = JNum (Fin 0), height = JNum (Fin 0),
                          codec = JStr ''unknown'', duration = Fin 10, file_size = Fin 1,
                          bitrate = 800, has_audio = True, audio_codec = JStr ''aac'',
                          frame_count = 300\<rparr>)))"
  by (rule conjI[OF get_video_info_parsed_unknown_rate
        get_video_info_frame_rate[OF get_video_info_parsed_unknown_rate]])

section \<open>Properties of the pipeline\<close>

subsection \<open>Sequencing\<close>

lemma bnd_ret: "bnd (ret x) f = f x"
  by (rule ext) (simp add: bnd_def ret_def)

lemma bnd_assoc: "bnd (bnd m f) h = bnd m (\<lambda>x. bnd (f x) h)"
  by (rule ext) (simp add: bnd_def split: prod.splits sum.splits)

lemma run_stages_Nil: "run_stages [] c = ret c"
  by (rule ext) (simp add: ret_def)

lemma run_stages_Cons: "run_stages (s # ss) c = bnd (s c) (run_stages ss)"
  by (rule ext) (simp add: bnd_def)

lemma run_stages_Inl:
  assumes "run_stages ss c w = (Inl e, w2)"
  shows "\<exists>k<length ss. \<exists>c1 w1. run_stages (take k ss) c w = (Inr c1, w1) \<and>
           (ss ! k) c1 w1 = (Inl e, w2)"
  using assms
proof (induction ss arbitrary: c w)
  case Nil
  then show ?case by simp
next
  case (Cons s ss)
  show ?case
  proof (cases "s c w")
    case (Pair r w1)
    show ?thesis
    proof (cases r)
      case (Inl e')
      with Pair Cons.prems have "s c w = (Inl e, w2)" by simp
      then have "run_stages (take 0 (s # ss)) c w = (Inr c, w) \<and>
          ((s # ss) ! 0) c w = (Inl e, w2)" by simp
      then show ?thesis by blast
    next
      case (Inr c')
      with Pair Cons.prems have "run_stages ss c' w1 = (Inl e, w2)" by simp
      from Cons.IH[OF this] obtain k c1 w1' where k: "k < length ss"
        "run_stages (take k ss) c' w1 = (Inr c1, w1')" "(ss ! k) c1 w1' = (Inl e, w2)"
        by blast
      have "run_stages (take (Suc k) (s # ss)) c w = (Inr c1, w1')"
        using Pair Inr k(2) by simp
      moreover have "((s # ss) ! Suc k) c1 w1' = (Inl e, w2)" using k(3) by simp
      moreover have "Suc k < length (s # ss)" using k(1) by simp
      ultimately show ?thesis by blast
    qed
  qed
qed

lemma process_video_stages:
  "process_video g en input_path output_path scale_v target_fps crf cb =
   bnd (mkdtemp en) (\<lambda>temp_dir.
     try_finally
       (bnd (run_stages
               (pipeline_stages g en input_path output_path scale_v target_fps crf cb temp_dir)
               initial_locals) (\<lambda>c. ret True))
       (cleanup temp_dir))"
  unfolding process_video_def pipeline_stages_def
  by (simp del: run_stages.simps add: run_stages_Nil run_stages_Cons bnd_assoc bnd_ret)



subsection \<open>The module as shipped: \<^verbatim>\<open>sys\<close> is not bound\<close>

lemma cleanup_returns: "fst (cleanup t w) = Inr ()"
  by (simp add: cleanup_def rmtree_def)

lemma cleanup_absent: "t \<notin> set (files (snd (cleanup t w)))"
  by (simp add: cleanup_def rmtree_def path_exists_def)

lemma cleanup_trace: "trace (snd (cleanup t w)) = trace w"
  by (simp add: cleanup_def rmtree_def)

lemma cleanup_cwd: "cwd (snd (cleanup t w)) = cwd w"
  by (simp add: cleanup_def rmtree_def)

lemma try_finally_cleanup:
  "try_finally body (cleanup t) w = (fst (body w), snd (cleanup t (snd (body w))))"
proof -
  obtain r w1 where b: "body w = (r, w1)" by (cases "body w")
  obtain w2 where c: "cleanup t w1 = (Inr (), w2)"
    using cleanup_returns[of t w1] by (cases "cleanup t w1") auto
  show ?thesis by (simp add: try_finally_def b c)
qed

lemma VideoProcessor_init_world: "snd (VideoProcessor_init en a b w) = w"
  by (simp add: VideoProcessor_init_def raise_def ret_def split: option.splits)

lemma RIFEInterpolator_init_unbound:
  assumes "''sys'' \<notin> set g"
  shows "RIFEInterpolator_init g en rd md w =
    (Inl (if \<not> path_exists (default_dir rd (environ_rife_dir en) (home en @ [''.ufps'', ''RIFE''])) w
          then RuntimeError (''RIFE not found at '' @
                 str_path (default_dir rd (environ_rife_dir en) (home en @ [''.ufps'', ''RIFE''])))
          else if \<not> path_exists
                 (default_dir md (environ_models_dir en) (home en @ [''.ufps'', ''models''])) w
          then RuntimeError (''Models not found at '' @
                 str_path (default_dir md (environ_models_dir en)
                   (home en @ [''.ufps'', ''models''])))
          else NameError ''sys''), w)"
  using assms
  by (simp add: RIFEInterpolator_init_def Let_def raise_def lookup_name_def bnd_def)

lemma sys_not_in_core_globals: "''sys'' \<notin> set core_globals"
  by (simp add: core_globals_def)

lemma invoke_unbound:
  "''sys'' \<notin> set g \<Longrightarrow> invoke g en args output_dir w = (Inl (NameError ''sys''), w)"
  by (simp add: invoke_def lookup_name_def raise_def bnd_def)

lemma scripts_loop_unbound:
  assumes "''sys'' \<notin> set g"
  shows "scripts_loop g en self input_dir output_dir exp_value ss w =
    (if list_ex (\<lambda>script. path_exists (rife_dir self @ [script]) w) ss
     then Inl (NameError ''sys'') else Inr None, w)"
  by (induction ss) (simp_all add: invoke_unbound[OF assms])

lemma interpolate_unbound:
  assumes "''sys'' \<notin> set g"
  shows "\<exists>e w'. interpolate g en self input_dir output_dir scale_v w = (Inl e, w') \<and>
     trace w' = trace w \<and> cwd w' = cwd w"
proof (cases "scale_v \<le> 0")
  case True
  then show ?thesis
    by (simp add: interpolate_def bnd_def mkdir_parents_def exp_value_of_def raise_def)
next
  case False
  then show ?thesis
    by (simp add: interpolate_def bnd_def mkdir_parents_def exp_value_of_def raise_def ret_def
        getcwd_def try_finally_def chdir_def scripts_loop_unbound[OF assms])
qed

lemma process_video_unbound:
  assumes "''sys'' \<notin> set g"
  shows "\<exists>e w'. process_video g en input_path output_path scale_v target_fps crf cb w = (Inl e, w')
     \<and> trace w' = trace w \<and> cwd w' = cwd w"
proof (cases "tmp_dir en \<in> set (files w)")
  case True
  then show ?thesis by (simp add: process_video_def bnd_def mkdtemp_def)
next
  case False
  let ?w0 = "w\<lparr>files := files w @ [tmp_dir en]\<rparr>"
  have m: "mkdtemp en w = (Inr (tmp_dir en), ?w0)" using False by (simp add: mkdtemp_def)
  obtain r where v: "VideoProcessor_init en None None ?w0 = (r, ?w0)"
    using VideoProcessor_init_world[of en None None ?w0]
    by (cases "VideoProcessor_init en None None ?w0") auto
  obtain e where ri: "RIFEInterpolator_init g en None None ?w0 = (Inl e, ?w0)"
    using RIFEInterpolator_init_unbound[OF assms] by blast
  show ?thesis
  proof (cases r)
    case (Inl e')
    then show ?thesis
      using v by (simp add: process_video_def bnd_def m try_finally_cleanup
          cleanup_trace cleanup_cwd)
  next
    case (Inr vp)
    then show ?thesis
      using v by (simp add: process_video_def bnd_def m ri try_finally_cleanup
          cleanup_trace cleanup_cwd)
  qed
qed


subsection \<open>The working directory during \<^verbatim>\<open>interpolate\<close>\<close>

lemma runs_in_Nil: "runs_in d []"
  by (simp add: runs_in_def)

lemma runs_in_append: "runs_in d (xs @ ys) \<longleftrightarrow> runs_in d xs \<and> runs_in d ys"
  by (simp add: runs_in_def)

lemma runs_in_Run: "runs_in d [Run d c]"
  by (simp add: runs_in_def)

lemma extends_in_refl: "extends_in d w w"
  by (simp add: extends_in_def runs_in_Nil)

lemma extends_in_trans: "extends_in d w w1 \<Longrightarrow> extends_in d w1 w2 \<Longrightarrow> extends_in d w w2"
  by (auto simp: extends_in_def runs_in_append)

lemma subprocess_run_extends:
  "subprocess_run en c w = (r, w') \<Longrightarrow> extends_in (cwd w) w w'"
  by (auto simp: subprocess_run_def extends_in_def runs_in_Run split: prod.splits)

lemma invoke_extends:
  assumes "invoke g en args output_dir w = (r, w')"
  shows "extends_in (cwd w) w w'"
proof (cases "''sys'' \<in> set g")
  case False
  with assms show ?thesis by (simp add: invoke_unbound extends_in_refl)
next
  case True
  obtain res w1 where s: "subprocess_run en (Lit (executable en) # args) w = (Inr res, w1)"
    by (cases "run_tool en (Lit (executable en) # args) w") (simp add: subprocess_run_def)
  have "w' = w1"
    using assms True s
    by (simp add: invoke_def lookup_name_def ret_def bnd_def split: if_splits)
  with subprocess_run_extends[OF s] show ?thesis by simp
qed

lemma scripts_loop_extends:
  "scripts_loop g en self input_dir output_dir exp_value ss w = (r, w') \<Longrightarrow>
   extends_in (cwd w) w w'"
proof (induction ss arbitrary: w)
  case Nil
  then show ?case by (simp add: extends_in_refl)
next
  case (Cons script rest)
  let ?sp = "rife_dir self @ [script]"
  show ?case
  proof (cases "path_exists ?sp w")
    case False
    with Cons show ?thesis by simp
  next
    case True
    obtain r1 w1 where i1: "invoke g en
        (script_args ?sp input_dir output_dir exp_value
           @ [Lit ''--modelDir'', StrPath (models_dir self)]) output_dir w = (r1, w1)"
      by (meson surj_pair)
    note e1 = invoke_extends[OF i1]
    show ?thesis
    proof (cases "r1 = Inr None")
      case False
      then have "w' = w1" using Cons.prems True i1
        by (cases r1) (auto split: option.splits)
      with e1 show ?thesis by simp
    next
      case r1: True
      obtain r2 w2 where i2: "invoke g en
          (script_args ?sp input_dir output_dir exp_value) output_dir w1 = (r2, w2)"
        by (meson surj_pair)
      have c1: "cwd w1 = cwd w" using e1 by (simp add: extends_in_def)
      have e2: "extends_in (cwd w) w1 w2" using invoke_extends[OF i2] c1 by simp
      note e12 = extends_in_trans[OF e1 e2]
      show ?thesis
      proof (cases "r2 = Inr None")
        case False
        then have "w' = w2" using Cons.prems True i1 r1 i2
          by (cases r2) (auto split: option.splits)
        with e12 show ?thesis by simp
      next
        case r2: True
        have "scripts_loop g en self input_dir output_dir exp_value rest w2 = (r, w')"
          using Cons.prems True i1 r1 i2 r2 by simp
        from Cons.IH[OF this] have "extends_in (cwd w) w2 w'"
          using e12 by (simp add: extends_in_def)
        with e12 show ?thesis by (rule extends_in_trans)
      qed
    qed
  qed
qed

lemma try_finally_chdir:
  "try_finally body (chdir p) w = (fst (body w), (snd (body w))\<lparr>cwd := p\<rparr>)"
  by (simp add: try_finally_def chdir_def split: prod.splits)

lemma interpolate_extends:
  assumes "interpolate g en self input_dir output_dir scale_v w = (r, w')"
  shows "cwd w' = cwd w \<and> (\<exists>evs. trace w' = trace w @ evs \<and> runs_in (rife_dir self) evs)"
proof (cases "scale_v \<le> 0")
  case True
  with assms show ?thesis
    by (auto simp: interpolate_def bnd_def mkdir_parents_def exp_value_of_def raise_def
        runs_in_Nil)
next
  case False
  let ?w1 = "w\<lparr>files := files w @
      filter (\<lambda>q. q \<noteq> [] \<and> q \<notin> set (files w)) (prefixes output_dir)\<rparr>"
  let ?w2 = "?w1\<lparr>cwd := rife_dir self\<rparr>"
  obtain r3 w3 where l: "scripts_loop g en self input_dir output_dir
      (int (ilog2 (nat scale_v))) scripts ?w2 = (r3, w3)"
    by (meson surj_pair)
  from scripts_loop_extends[OF l] obtain evs where
    c3: "cwd w3 = rife_dir self" and t3: "trace w3 = trace w @ evs"
    and ri: "runs_in (rife_dir self) evs"
    by (auto simp: extends_in_def)
  have "w' = w3\<lparr>cwd := cwd w\<rparr>"
    using assms False l
    by (cases r3)
      (auto simp: interpolate_def bnd_def mkdir_parents_def exp_value_of_def raise_def ret_def
        getcwd_def try_finally_chdir chdir_def split: option.splits)
  with t3 ri show ?thesis by auto
qed


subsection \<open>A module with \<^verbatim>\<open>sys\<close> bound\<close>

text \<open>
  Where the name \<^verbatim>\<open>sys\<close> is bound, an invocation never raises: it runs the command and
  reports the frames, and the loop over the scripts ends with a count or with \<open>None\<close>.
\<close>

lemma invoke_bound:
  assumes "''sys'' \<in> set g"
    and "run_tool en (Lit (executable en) # args) w = (result, fs)"
  shows "invoke g en args output_dir w =
    (Inr (if returncode result = 0 \<and>
             glob_png output_dir
               (w\<lparr>files := fs, trace := trace w @ [Run (cwd w) (Lit (executable en) # args)]\<rparr>)
             \<noteq> []
          then Some (length (glob_png output_dir
               (w\<lparr>files := fs, trace := trace w @ [Run (cwd w) (Lit (executable en) # args)]\<rparr>)))
          else None),
     w\<lparr>files := fs, trace := trace w @ [Run (cwd w) (Lit (executable en) # args)]\<rparr>)"
  using assms by (simp add: invoke_def lookup_name_def ret_def bnd_def subprocess_run_def)

lemma invoke_bound_returns:
  assumes "''sys'' \<in> set g"
  shows "\<exists>r w'. invoke g en args output_dir w = (Inr r, w')"
proof -
  obtain result fs where "run_tool en (Lit (executable en) # args) w = (result, fs)"
    by (meson surj_pair)
  from invoke_bound[OF assms this] show ?thesis by blast
qed

lemma scripts_loop_bound_returns:
  assumes "''sys'' \<in> set g"
  shows "\<exists>r w'. scripts_loop g en self input_dir output_dir exp_value ss w = (Inr r, w')"
proof (induction ss arbitrary: w)
  case Nil
  show ?case by simp
next
  case (Cons script rest)
  let ?sp = "rife_dir self @ [script]"
  show ?case
  proof (cases "path_exists ?sp w")
    case False
    with Cons show ?thesis by simp
  next
    case True
    obtain r1 w1 where i1: "invoke g en
        (script_args ?sp input_dir output_dir exp_value
           @ [Lit ''--modelDir'', StrPath (models_dir self)]) output_dir w = (Inr r1, w1)"
      using invoke_bound_returns[OF assms] by blast
    obtain r2 w2 where i2: "invoke g en
        (script_args ?sp input_dir output_dir exp_value) output_dir w1 = (Inr r2, w2)"
      using invoke_bound_returns[OF assms] by blast
    obtain r3 w3 where i3:
      "scripts_loop g en self input_dir output_dir exp_value rest w2 = (Inr r3, w3)"
      using Cons.IH by blast
    show ?thesis
      using True i1 i2 i3 by (cases r1; cases r2) simp_all
  qed
qed

subsection \<open>The loop over the scripts and the search of the specification\<close>

lemma invoke_bound_attempt:
  assumes "''sys'' \<in> set g"
  shows "invoke g en args output_dir w =
    (Inr (fst (spec_attempt en output_dir (Lit (executable en) # args) w)),
     snd (spec_attempt en output_dir (Lit (executable en) # args) w))"
proof -
  obtain result fs where t: "run_tool en (Lit (executable en) # args) w = (result, fs)"
    by (meson surj_pair)
  show ?thesis
    by (simp add: invoke_bound[OF assms t] spec_attempt_def t succeeded_def)
qed

lemma scripts_loop_bound_search:
  assumes "''sys'' \<in> set g"
  shows "scripts_loop g en self input_dir output_dir exp_value ss w =
    (Inr (fst (spec_search en self input_dir output_dir exp_value ss w)),
     snd (spec_search en self input_dir output_dir exp_value ss w))"
proof (induction ss arbitrary: w)
  case Nil
  show ?case by simp
next
  case (Cons script rest)
  let ?sp = "rife_dir self @ [script]"
  let ?a1 = "script_args ?sp input_dir output_dir exp_value
               @ [Lit ''--modelDir'', StrPath (models_dir self)]"
  let ?a2 = "script_args ?sp input_dir output_dir exp_value"
  show ?case
  proof (cases "path_exists ?sp w")
    case False
    then show ?thesis by (simp add: Cons.IH)
  next
    case True
    obtain r1 w1 where s1: "spec_attempt en output_dir (Lit (executable en) # ?a1) w = (r1, w1)"
      by (meson surj_pair)
    obtain r2 w2 where s2: "spec_attempt en output_dir (Lit (executable en) # ?a2) w1 = (r2, w2)"
      by (meson surj_pair)
    have i1: "invoke g en ?a1 output_dir w = (Inr r1, w1)"
      by (simp add: invoke_bound_attempt[OF assms] s1)
    have i2: "invoke g en ?a2 output_dir w1 = (Inr r2, w2)"
      by (simp add: invoke_bound_attempt[OF assms] s2)
    show ?thesis
      using True i1 i2 s1 s2
      by (cases r1; cases r2) (simp_all add: variants_def Cons.IH)
  qed
qed

lemma spec_search_absent:
  "\<not> list_ex (\<lambda>script. path_exists (rife_dir self @ [script]) w) ss \<Longrightarrow>
   spec_search en self input_dir output_dir exp_value ss w = (None, w)"
  by (induction ss) simp_all

lemma scripts_loop_refines:
  assumes "scripts_loop g en self input_dir output_dir exp_value ss w = (Inr found, w')"
  shows "spec_search en self input_dir output_dir exp_value ss w = (found, w')"
proof (cases "''sys'' \<in> set g")
  case True
  from assms show ?thesis
    unfolding scripts_loop_bound_search[OF True]
    by (cases "spec_search en self input_dir output_dir exp_value ss w") simp
next
  case False
  from assms have "\<not> list_ex (\<lambda>script. path_exists (rife_dir self @ [script]) w) ss"
    and "found = None" and "w' = w"
    unfolding scripts_loop_unbound[OF False] by (auto split: if_splits)
  with spec_search_absent show ?thesis by simp
qed

lemma scripts_loop_search_failed:
  assumes "fst (spec_search en self input_dir output_dir exp_value ss w) = None"
    and "scripts_loop g en self input_dir output_dir exp_value ss w = (r, w')"
  shows "r = Inr None \<or> (\<exists>err. r = Inl err)"
proof (cases r)
  case (Inl e)
  then show ?thesis by simp
next
  case (Inr found)
  from scripts_loop_refines[OF assms(2)[unfolded Inr]] assms(1) have "found = None" by simp
  with Inr show ?thesis by simp
qed




lemma interpolate_outcome:
  assumes "0 < scale_v"
  shows "interpolate g en self input_dir output_dir scale_v w =
    (case scripts_loop g en self input_dir output_dir (int (ilog2 (nat scale_v))) scripts
            (search_start self output_dir w) of
       (Inl e, w3) \<Rightarrow> (Inl e, w3\<lparr>cwd := cwd w\<rparr>)
     | (Inr None, w3) \<Rightarrow>
         (Inl (RuntimeError ''RIFE interpolation failed - no compatible script found''),
          w3\<lparr>cwd := cwd w\<rparr>)
     | (Inr (Some n), w3) \<Rightarrow> (Inr n, w3\<lparr>cwd := cwd w\<rparr>))"
proof -
  obtain r3 w3 where l: "scripts_loop g en self input_dir output_dir
      (int (ilog2 (nat scale_v))) scripts (search_start self output_dir w) = (r3, w3)"
    by (meson surj_pair)
  have l': "scripts_loop g en self input_dir output_dir (int (ilog2 (nat scale_v))) scripts
      (w\<lparr>files := files w @ filter (\<lambda>q. q \<noteq> [] \<and> q \<notin> set (files w)) (prefixes output_dir),
         cwd := rife_dir self\<rparr>) = (r3, w3)"
    using l by (simp add: search_start_def mkdir_parents_def)
  show ?thesis
    using assms l l'
    by (cases r3)
      (auto simp: interpolate_def bnd_def mkdir_parents_def exp_value_of_def raise_def ret_def
        getcwd_def try_finally_chdir chdir_def split: option.splits)
qed

text \<open>With \<^verbatim>\<open>sys\<close> bound, \<^verbatim>\<open>interpolate\<close> is the search of the specification.\<close>

lemma interpolate_bound_search:
  assumes "''sys'' \<in> set g" "0 < scale_v"
  shows "interpolate g en self input_dir output_dir scale_v w =
    (case spec_search en self input_dir output_dir (int (ilog2 (nat scale_v))) scripts
            (search_start self output_dir w) of
       (None, w3) \<Rightarrow>
         (Inl (RuntimeError ''RIFE interpolation failed - no compatible script found''),
          w3\<lparr>cwd := cwd w\<rparr>)
     | (Some n, w3) \<Rightarrow> (Inr n, w3\<lparr>cwd := cwd w\<rparr>))"
  unfolding interpolate_outcome[OF assms(2)] scripts_loop_bound_search[OF assms(1)]
  by (simp split: prod.splits option.splits)

subsection \<open>Concrete runs\<close>

lemmas core_defs =
  process_video_def interpolate_def bnd_def ret_def raise_def try_finally_def mkdtemp_def
  VideoProcessor_init_def RIFEInterpolator_init_def lookup_name_def report_def extract_frames_def
  extract_audio_def encode_video_def subprocess_run_def mkdir_parents_def glob_png_def rmtree_def
  cleanup_def path_exists_def getcwd_def chdir_def exp_value_of_def invoke_def script_args_def
  scripts_def default_dir_def py_or_def extract_frames_cmd_def extract_audio_cmd_def
  encode_cmd_audio_def encode_cmd_silent_def str_path_def
  demo_env_def demo_world_def demo_tool_def demo_rife_def demo_video_proc_def ok_result_def
  failed_result_def fixed_globals_def core_globals_def suffix_to_prefix ilog2.simps Let_def


lemma interpolate_demo_fixed:
  "interpolate fixed_globals demo_env demo_rife [''tmp'', ''ufps_x'', ''frames'']
     [''tmp'', ''ufps_x'', ''interpolated''] 2 demo_world =
   (Inr 1,
    \<lparr>files = [[''rife''], [''rife'', ''inference_img.py''], [''models''], [''in.mp4''],
       [''tmp''], [''tmp'', ''ufps_x''], [''tmp'', ''ufps_x'', ''interpolated''],
       [''tmp'', ''ufps_x'', ''interpolated'', ''00000001.png'']],
     cwd = [''home''], sys_path = [],
     trace =
       [Run [''rife'']
         [Lit ''python3'', StrPath [''rife'', ''inference_img.py''],
          Lit ''--img'', StrPath [''tmp'', ''ufps_x'', ''frames''], Lit ''--output'',
          StrPath [''tmp'', ''ufps_x'', ''interpolated''], Lit ''--exp'',
          StrInt 1, Lit ''--modelDir'', StrPath [''models'']],
        Run [''rife'']
         [Lit ''python3'', StrPath [''rife'', ''inference_img.py''],
          Lit ''--img'', StrPath [''tmp'', ''ufps_x'', ''frames''], Lit ''--output'',
          StrPath [''tmp'', ''ufps_x'', ''interpolated''], Lit ''--exp'',
          StrInt 1]]\<rparr>)"
  by (simp add: core_defs)


lemma process_video_demo_core:
  "process_video core_globals demo_env [''in.mp4''] [''out.mp4''] 2 60 18 None demo_world =
   (Inl (NameError ''sys''), demo_world)"
  by (simp add: core_defs)

lemma process_video_demo_fixed:
  "process_video fixed_globals demo_env [''in.mp4''] [''out.mp4''] 2 60 18 None demo_world =
   (Inr True,
  \<lparr>files =
     [[''rife''], [''rife'', ''inference_img.py''], [''models''],
      [''in.mp4''], [''tmp''], [''out.mp4'']],
     cwd = [''home''], sys_path = [[''rife'']],
     trace =
       [Run [''home'']
         [Lit ''/usr/bin/ffmpeg'', Lit ''-i'', StrPath [''in.mp4''],
          Lit ''-qscale:v'', StrInt 1, Lit ''-qmin'', Lit ''1'',
          StrPath [''tmp'', ''ufps_x'', ''frames'', ''frame_%08d.png''],
          Lit ''-loglevel'', Lit ''error''],
        Run [''rife'']
         [Lit ''python3'', StrPath [''rife'', ''inference_img.py''],
          Lit ''--img'', StrPath [''tmp'', ''ufps_x'', ''frames''],
          Lit ''--output'', StrPath [''tmp'', ''ufps_x'', ''interpolated''],
          Lit ''--exp'', StrInt 1, Lit ''--modelDir'',
          StrPath [''models'']],
        Run [''rife'']
         [Lit ''python3'', StrPath [''rife'', ''inference_img.py''],
          Lit ''--img'', StrPath [''tmp'', ''ufps_x'', ''frames''],
          Lit ''--output'', StrPath [''tmp'', ''ufps_x'', ''interpolated''],
          Lit ''--exp'', StrInt 1],
        Run [''home'']
         [Lit ''/usr/bin/ffmpeg'', Lit ''-i'', StrPath [''in.mp4''],
          Lit ''-vn'', Lit ''-acodec'', Lit ''copy'',
          StrPath [''tmp'', ''ufps_x'', ''audio.aac''], Lit ''-loglevel'',
          Lit ''error'', Lit ''-y''],
        Run [''home'']
         [Lit ''/usr/bin/ffmpeg'', Lit ''-r'', StrReal 60, Lit ''-i'',
          StrPath
           [''tmp'', ''ufps_x'', ''interpolated'', ''frame_%08d.png''],
          Lit ''-c:v'', Lit ''libx264'', Lit ''-crf'', StrInt 18,
          Lit ''-preset'', Lit ''slow'', Lit ''-pix_fmt'', Lit ''yuv420p'',
          StrPath [''out.mp4''], Lit ''-loglevel'', Lit ''error'',
          Lit ''-y'']]\<rparr>)"
  by (simp add: core_defs)


subsection \<open>The outcome of \<^verbatim>\<open>process_video\<close>\<close>

lemma process_video_outcome:
  assumes "tmp_dir en \<notin> set (files w)"
  shows "process_video g en input_path output_path scale_v target_fps crf cb w =
     (case run_stages
             (pipeline_stages g en input_path output_path scale_v target_fps crf cb (tmp_dir en))
             initial_locals (w\<lparr>files := files w @ [tmp_dir en]\<rparr>) of
        (Inl e, w2) \<Rightarrow> (Inl e, snd (cleanup (tmp_dir en) w2))
      | (Inr c, w2) \<Rightarrow> (Inr True, snd (cleanup (tmp_dir en) w2)))"
proof -
  have m: "mkdtemp en w = (Inr (tmp_dir en), w\<lparr>files := files w @ [tmp_dir en]\<rparr>)"
    using assms by (simp add: mkdtemp_def)
  show ?thesis
    unfolding process_video_stages
    by (simp add: bnd_def m try_finally_cleanup ret_def split: prod.splits sum.splits)
qed

lemma process_video_tmp_exists:
  assumes "tmp_dir en \<in> set (files w)"
  shows "process_video g en input_path output_path scale_v target_fps crf cb w =
     (Inl FileExistsError, w)"
  using assms by (simp add: process_video_def bnd_def mkdtemp_def)


subsection \<open>Claims about the pipeline\<close>

text \<open>
  Claim C3: for every input, environment and state, \<^verbatim>\<open>process_video\<close> of the module as
  shipped raises before any frame is extracted and never returns \<^verbatim>\<open>True\<close>: no command
  has run and no progress has been reported when it raises. The constructor of
  \<^verbatim>\<open>RIFEInterpolator\<close> raises \<^verbatim>\<open>RuntimeError\<close> when the RIFE directory or the models
  directory is absent and \<^verbatim>\<open>NameError\<close> otherwise, at \<^verbatim>\<open>sys.path.insert\<close>; and
  \<^verbatim>\<open>interpolate\<close> does not return either, and runs no command.
\<close>

theorem process_video_always_raises:
  "(\<exists>e w'. process_video core_globals en input_path output_path scale_v target_fps crf cb w
        = (Inl e, w') \<and> trace w' = trace w) \<and>
   RIFEInterpolator_init core_globals en rd md w =
     (Inl (if \<not> path_exists (default_dir rd (environ_rife_dir en) (home en @ [''.ufps'', ''RIFE''])) w
           then RuntimeError (''RIFE not found at '' @
                  str_path (default_dir rd (environ_rife_dir en) (home en @ [''.ufps'', ''RIFE''])))
           else if \<not> path_exists
                  (default_dir md (environ_models_dir en) (home en @ [''.ufps'', ''models''])) w
           then RuntimeError (''Models not found at '' @
                  str_path (default_dir md (environ_models_dir en)
                    (home en @ [''.ufps'', ''models''])))
           else NameError ''sys''), w) \<and>
   (\<exists>e w'. interpolate core_globals en self input_dir output_dir scale_v w = (Inl e, w') \<and>
        trace w' = trace w)"
proof -
  have 1: "\<exists>e w'. process_video core_globals en input_path output_path scale_v target_fps crf cb w
        = (Inl e, w') \<and> trace w' = trace w"
    using process_video_unbound[OF sys_not_in_core_globals] by blast
  have 3: "\<exists>e w'. interpolate core_globals en self input_dir output_dir scale_v w = (Inl e, w') \<and>
        trace w' = trace w"
    using interpolate_unbound[OF sys_not_in_core_globals] by blast
  from 1 RIFEInterpolator_init_unbound[OF sys_not_in_core_globals] 3 show ?thesis by blast
qed





text \<open>
  Claim C5: on every exit path of \<^verbatim>\<open>process_video\<close> the temporary directory created at
  the start is absent afterwards, no later stage runs after a stage raises, and the error
  is the one the stage raised. For every module, environment and state: when
  \<^verbatim>\<open>mkdtemp\<close> cannot create the directory, its error is the result and nothing has
  changed; otherwise the directory does not exist in the final state, and either some
  stage \<open>k\<close> raised \<open>e\<close> after the stages before it returned, the result is \<open>e\<close> and the
  final state is the state at that raise after the clean-up alone, or all stages returned,
  the result is \<^verbatim>\<open>True\<close> and the final state is the last state after the clean-up.
\<close>

theorem process_video_cleanup_and_propagation:
  assumes "process_video g en input_path output_path scale_v target_fps crf cb w = (r, w')"
  shows "if tmp_dir en \<in> set (files w) then r = Inl FileExistsError \<and> w' = w
     else tmp_dir en \<notin> set (files w') \<and>
       (case r of
          Inl e \<Rightarrow>
            (\<exists>k c1 w1 w2.
               k < length (pipeline_stages g en input_path output_path scale_v target_fps crf cb
                             (tmp_dir en)) \<and>
               run_stages
                 (take k (pipeline_stages g en input_path output_path scale_v target_fps crf cb
                            (tmp_dir en)))
                 initial_locals (w\<lparr>files := files w @ [tmp_dir en]\<rparr>) = (Inr c1, w1) \<and>
               (pipeline_stages g en input_path output_path scale_v target_fps crf cb
                  (tmp_dir en) ! k) c1 w1 = (Inl e, w2) \<and>
               w' = snd (cleanup (tmp_dir en) w2))
        | Inr v \<Rightarrow>
            v = True \<and>
            (\<exists>c w2.
               run_stages
                 (pipeline_stages g en input_path output_path scale_v target_fps crf cb
                    (tmp_dir en))
                 initial_locals (w\<lparr>files := files w @ [tmp_dir en]\<rparr>) = (Inr c, w2) \<and>
               w' = snd (cleanup (tmp_dir en) w2)))"
proof (cases "tmp_dir en \<in> set (files w)")
  case True
  with assms process_video_tmp_exists[OF True] show ?thesis by simp
next
  case False
  let ?st = "pipeline_stages g en input_path output_path scale_v target_fps crf cb (tmp_dir en)"
  let ?w0 = "w\<lparr>files := files w @ [tmp_dir en]\<rparr>"
  obtain r2 w2 where rs: "run_stages ?st initial_locals ?w0 = (r2, w2)"
    by (meson surj_pair)
  have w': "w' = snd (cleanup (tmp_dir en) w2)"
    using assms process_video_outcome[OF False, of g input_path output_path scale_v target_fps crf cb]
      rs by (cases r2) auto
  then have absent: "tmp_dir en \<notin> set (files w')" by (simp add: cleanup_absent)
  show ?thesis
  proof (cases r2)
    case (Inl e)
    then have r: "r = Inl e"
      using assms process_video_outcome[OF False, of g input_path output_path scale_v target_fps crf cb]
        rs by simp
    from run_stages_Inl[OF rs[unfolded Inl]] obtain k c1 w1 where
      "k < length ?st" "run_stages (take k ?st) initial_locals ?w0 = (Inr c1, w1)"
      "(?st ! k) c1 w1 = (Inl e, w2)"
      by blast
    with w' have "\<exists>k c1 w1 w2. k < length ?st \<and>
        run_stages (take k ?st) initial_locals ?w0 = (Inr c1, w1) \<and>
        (?st ! k) c1 w1 = (Inl e, w2) \<and> w' = snd (cleanup (tmp_dir en) w2)"
      by blast
    with False absent r show ?thesis by simp
  next
    case (Inr c)
    then have r: "r = Inr True"
      using assms process_video_outcome[OF False, of g input_path output_path scale_v target_fps crf cb]
        rs by simp
    have "\<exists>c w2. run_stages ?st initial_locals ?w0 = (Inr c, w2) \<and>
        w' = snd (cleanup (tmp_dir en) w2)"
      using rs Inr w' by blast
    with False absent r show ?thesis by simp
  qed
qed


theorem process_video_cleanup_and_propagation_witness:
  "process_video core_globals demo_env [''in.mp4''] [''out.mp4''] 2 60 18 None demo_world =
     (Inl (NameError ''sys''), demo_world) \<and>
   tmp_dir demo_env \<notin> set (files demo_world) \<and>
   (\<exists>k c1 w1 w2.
      k < length (pipeline_stages core_globals demo_env [''in.mp4''] [''out.mp4''] 2 60 18 None
                    (tmp_dir demo_env)) \<and>
      run_stages
        (take k (pipeline_stages core_globals demo_env [''in.mp4''] [''out.mp4''] 2 60 18 None
                   (tmp_dir demo_env)))
        initial_locals (demo_world\<lparr>files := files demo_world @ [tmp_dir demo_env]\<rparr>)
        = (Inr c1, w1) \<and>
      (pipeline_stages core_globals demo_env [''in.mp4''] [''out.mp4''] 2 60 18 None
         (tmp_dir demo_env) ! k) c1 w1 = (Inl (NameError ''sys''), w2) \<and>
      demo_world = snd (cleanup (tmp_dir demo_env) w2)) \<and>
   fst (process_video fixed_globals demo_env [''in.mp4''] [''out.mp4''] 2 60 18 None demo_world)
     = Inr True \<and>
   tmp_dir demo_env \<notin> set (files (snd
     (process_video fixed_globals demo_env [''in.mp4''] [''out.mp4''] 2 60 18 None demo_world)))"
proof -
  have fresh: "tmp_dir demo_env \<notin> set (files demo_world)"
    by (simp add: demo_env_def demo_world_def)
  have completes: "fst (process_video fixed_globals demo_env [''in.mp4''] [''out.mp4''] 2 60 18 None
      demo_world) = Inr True \<and>
    tmp_dir demo_env \<notin> set (files (snd
      (process_video fixed_globals demo_env [''in.mp4''] [''out.mp4''] 2 60 18 None demo_world)))"
    unfolding process_video_demo_fixed by (simp add: demo_env_def)
  from process_video_cleanup_and_propagation[OF process_video_demo_core] fresh completes
  show ?thesis using process_video_demo_core by simp
qed



text \<open>
  Claim C10: on every exit path of \<^verbatim>\<open>interpolate\<close>, a return as well as a raise, the
  working directory at the end is the one at the start, and every command that
  \<^verbatim>\<open>interpolate\<close> has run was run in the root directory of the interpolation tool.
\<close>

theorem interpolate_restores_cwd:
  assumes "interpolate g en self input_dir output_dir scale_v w = (r, w')"
  shows "cwd w' = cwd w \<and> (\<exists>evs. trace w' = trace w @ evs \<and> runs_in (rife_dir self) evs)"
  using interpolate_extends[OF assms] .


theorem interpolate_restores_cwd_witness:
  "interpolate fixed_globals demo_env demo_rife [''tmp'', ''ufps_x'', ''frames'']
     [''tmp'', ''ufps_x'', ''interpolated''] 2 demo_world =
   (Inr 1,
    \<lparr>files = [[''rife''], [''rife'', ''inference_img.py''], [''models''], [''in.mp4''],
       [''tmp''], [''tmp'', ''ufps_x''], [''tmp'', ''ufps_x'', ''interpolated''],
       [''tmp'', ''ufps_x'', ''interpolated'', ''00000001.png'']],
     cwd = [''home''], sys_path = [],
     trace =
       [Run [''rife'']
         [Lit ''python3'', StrPath [''rife'', ''inference_img.py''],
          Lit ''--img'', StrPath [''tmp'', ''ufps_x'', ''frames''], Lit ''--output'',
          StrPath [''tmp'', ''ufps_x'', ''interpolated''], Lit ''--exp'',
          StrInt 1, Lit ''--modelDir'', StrPath [''models'']],
        Run [''rife'']
         [Lit ''python3'', StrPath [''rife'', ''inference_img.py''],
          Lit ''--img'', StrPath [''tmp'', ''ufps_x'', ''frames''], Lit ''--output'',
          StrPath [''tmp'', ''ufps_x'', ''interpolated''], Lit ''--exp'',
          StrInt 1]]\<rparr>) \<and>
   cwd demo_world = [''home''] \<and>
   rife_dir demo_rife = [''rife'']"
  using interpolate_restores_cwd[OF interpolate_demo_fixed] interpolate_demo_fixed
  by (simp add: demo_world_def demo_rife_def)


end
